theory Spec2Isabelle
  imports Complex_Main
begin

section \<open>Python values\<close>

text \<open>
  A Python \<open>str\<close> is a sequence of Unicode code points; a code point is a natural
  number. \<open>py\<close> turns an ASCII literal of the source into such a sequence.
\<close>

type_synonym pystr = "nat list"

definition py :: "string \<Rightarrow> pystr" where
  "py s = map of_char s"

text \<open>
  The values \<open>request.get_json()\<close> can return. \<open>JNull\<close> is Python's \<open>None\<close>. A
  \<open>dict\<close> is an association list from keys to values, looked up with \<open>map_of\<close>.
\<close>

datatype json =
    JNull
  | JBool bool
  | JInt int
  | JFloat real
  | JStr pystr
  | JArr "json list"
  | JObj "(pystr \<times> json) list"

text \<open>The exceptions the service can raise. \<open>HTTPException c m\<close> is \<open>abort(c, m)\<close>.\<close>

datatype pyexn =
    AttributeError
  | KeyError
  | TypeError
  | ValueError
  | DataValidationError
  | HTTPException nat pystr

text \<open>\<open>isinstance(v, str)\<close>\<close>

fun is_str :: "json \<Rightarrow> bool" where
  "is_str (JStr s) = True"
| "is_str _ = False"

text \<open>\<open>d.get(k)\<close>, \<open>d[k]\<close> and \<open>k in d\<close> on a dict.\<close>

definition dict_get :: "(pystr \<times> json) list \<Rightarrow> pystr \<Rightarrow> json" where
  "dict_get d k = (case map_of d k of None \<Rightarrow> JNull | Some v \<Rightarrow> v)"

definition subscript :: "(pystr \<times> json) list \<Rightarrow> pystr \<Rightarrow> pyexn + json" where
  "subscript d k = (case map_of d k of None \<Rightarrow> Inl KeyError | Some v \<Rightarrow> Inr v)"

definition dict_contains :: "(pystr \<times> json) list \<Rightarrow> pystr \<Rightarrow> bool" where
  "dict_contains d k = (map_of d k \<noteq> None)"

section \<open>Regular expressions: the part of \<open>re\<close> that \<open>validate_email\<close> uses\<close>

text \<open>
  \<open>\w\<close> on a \<open>str\<close> pattern matches the underscore and every code point for which
  \<open>str.isalnum\<close> holds. For ASCII that is \<open>[0-9A-Za-z]\<close>; beyond ASCII it is decided
  by the Unicode database of the interpreter, which is a parameter \<open>tbl\<close> here.
\<close>

definition isalnum :: "(nat \<Rightarrow> bool) \<Rightarrow> nat \<Rightarrow> bool" where
  "isalnum tbl c =
     (if c < 128 then (48 \<le> c \<and> c \<le> 57) \<or> (65 \<le> c \<and> c \<le> 90) \<or> (97 \<le> c \<and> c \<le> 122)
      else tbl c)"

datatype cset_item = Word | Chr nat

fun in_item :: "(nat \<Rightarrow> bool) \<Rightarrow> cset_item \<Rightarrow> nat \<Rightarrow> bool" where
  "in_item tbl Word c = (c = 95 \<or> isalnum tbl c)"
| "in_item tbl (Chr a) c = (c = a)"

definition in_cset :: "(nat \<Rightarrow> bool) \<Rightarrow> cset_item list \<Rightarrow> nat \<Rightarrow> bool" where
  "in_cset tbl k c = list_ex (\<lambda>i. in_item tbl i c) k"

text \<open>
  A pattern is a sequence of items: \<open>^\<close>, \<open>$\<close>, a literal character, and a character
  set followed by \<open>+\<close>.
\<close>

datatype re_item = Bol | Eol | Lit nat | PlusSet "cset_item list"

text \<open>
  \<open>re_run tbl p i s\<close>: the items \<open>p\<close> match at position \<open>i\<close>, where \<open>s\<close> is the rest of
  the subject from \<open>i\<close> on. A match need not reach the end of the subject. Without
  \<open>re.MULTILINE\<close>, \<open>^\<close> matches at position 0 only, and \<open>$\<close> matches at the end of
  the subject and just before a newline that is its last character.
\<close>

fun re_run :: "(nat \<Rightarrow> bool) \<Rightarrow> re_item list \<Rightarrow> nat \<Rightarrow> pystr \<Rightarrow> bool" where
  "re_run tbl [] i s = True"
| "re_run tbl (Bol # p) i s = (i = 0 \<and> re_run tbl p i s)"
| "re_run tbl (Eol # p) i s = ((s = [] \<or> s = [10]) \<and> re_run tbl p i s)"
| "re_run tbl (Lit a # p) i [] = False"
| "re_run tbl (Lit a # p) i (c # cs) = (c = a \<and> re_run tbl p (Suc i) cs)"
| "re_run tbl (PlusSet k # p) i [] = False"
| "re_run tbl (PlusSet k # p) i (c # cs) =
     (in_cset tbl k c \<and> (re_run tbl (PlusSet k # p) (Suc i) cs \<or> re_run tbl p (Suc i) cs))"

text \<open>\<open>re.match(pattern, s) is not None\<close>\<close>

definition re_match :: "(nat \<Rightarrow> bool) \<Rightarrow> re_item list \<Rightarrow> pystr \<Rightarrow> bool" where
  "re_match tbl p s = re_run tbl p 0 s"

section \<open>\<open>validate_email\<close>\<close>

text \<open>The pattern \<^verbatim>\<open>^[\w\.-]+@[\w\.-]+\.\w+$\<close>.\<close>

definition pattern :: "re_item list" where
  "pattern =
     [Bol, PlusSet [Word, Chr 46, Chr 45], Lit 64, PlusSet [Word, Chr 46, Chr 45],
      Lit 46, PlusSet [Word], Eol]"

text \<open>\<open>re.match\<close> raises \<open>TypeError\<close> when the subject is not a string.\<close>

fun validate_email :: "(nat \<Rightarrow> bool) \<Rightarrow> json \<Rightarrow> pyexn + bool" where
  "validate_email tbl (JStr email) = Inr (re_match tbl pattern email)"
| "validate_email tbl _ = Inl TypeError"

section \<open>Dates: the part of \<open>datetime.date\<close> that the service uses\<close>

record date =
  year :: nat
  month :: nat
  day :: nat

definition is_leap :: "nat \<Rightarrow> bool" where
  "is_leap y = (y mod 4 = 0 \<and> (y mod 100 \<noteq> 0 \<or> y mod 400 = 0))"

definition days_in_month :: "nat \<Rightarrow> nat \<Rightarrow> nat" where
  "days_in_month y m =
     (if m = 2 then (if is_leap y then 29 else 28)
      else if m = 4 \<or> m = 6 \<or> m = 9 \<or> m = 11 then 30
      else 31)"

text \<open>The check of the \<open>date(year, month, day)\<close> constructor (\<open>MINYEAR = 1\<close>, \<open>MAXYEAR = 9999\<close>).\<close>

definition valid_date :: "date \<Rightarrow> bool" where
  "valid_date dt =
     (1 \<le> year dt \<and> year dt \<le> 9999 \<and> 1 \<le> month dt \<and> month dt \<le> 12 \<and>
      1 \<le> day dt \<and> day dt \<le> days_in_month (year dt) (month dt))"

definition is_digit :: "nat \<Rightarrow> bool" where
  "is_digit c = (48 \<le> c \<and> c \<le> 57)"

text \<open>
  \<open>date.fromisoformat\<close> belongs to the interpreter, and the strings it reads depend on
  the interpreter's version. The validator and the handlers therefore take the function
  as a parameter \<open>fromiso\<close>, from a string to the date read, \<open>None\<close> where the library
  raises \<open>ValueError\<close>. Two instances follow: the function of Python 3.7 to 3.10 and
  the function of Python 3.11.
\<close>

text \<open>
  Python 3.7 to 3.10: the ten characters \<open>YYYY-MM-DD\<close>, ASCII digits only, naming a
  day of the calendar.
\<close>

fun parse_isoformat_date :: "pystr \<Rightarrow> date option" where
  "parse_isoformat_date [y1, y2, y3, y4, s1, m1, m2, s2, d1, d2] =
     (if is_digit y1 \<and> is_digit y2 \<and> is_digit y3 \<and> is_digit y4 \<and> s1 = 45 \<and>
         is_digit m1 \<and> is_digit m2 \<and> s2 = 45 \<and> is_digit d1 \<and> is_digit d2
      then Some \<lparr>year = 1000 * (y1 - 48) + 100 * (y2 - 48) + 10 * (y3 - 48) + (y4 - 48),
                 month = 10 * (m1 - 48) + (m2 - 48),
                 day = 10 * (d1 - 48) + (d2 - 48)\<rparr>
      else None)"
| "parse_isoformat_date _ = None"

definition fromisoformat_py310 :: "pystr \<Rightarrow> date option" where
  "fromisoformat_py310 s =
     (case parse_isoformat_date s of
        None \<Rightarrow> None
      | Some dt \<Rightarrow> if valid_date dt then Some dt else None)"

text \<open>
  Python 3.11. The string is encoded as UTF-8 (which fails on a surrogate) and must be 7,
  8 or 10 bytes long. The parser reads four digits of the year, an optional \<open>-\<close>, and
  then either \<open>W\<close>, two digits of an ISO week and, if the string goes on, a digit of the
  day of the week, or two digits of the month and two of the day; when the first
  separator was there, each later part must be preceded by one too. What follows the
  parts that were read is ignored.
\<close>

fun utf8_size :: "nat \<Rightarrow> nat option" where
  "utf8_size c =
     (if c < 128 then Some 1
      else if c < 2048 then Some 2
      else if 55296 \<le> c \<and> c \<le> 57343 then None
      else if c < 65536 then Some 3
      else Some 4)"

fun utf8_len :: "pystr \<Rightarrow> nat option" where
  "utf8_len [] = Some 0"
| "utf8_len (c # cs) =
     (case utf8_size c of
        None \<Rightarrow> None
      | Some k \<Rightarrow> (case utf8_len cs of None \<Rightarrow> None | Some n \<Rightarrow> Some (k + n)))"

fun parse_digits :: "nat \<Rightarrow> nat \<Rightarrow> pystr \<Rightarrow> (nat \<times> pystr) option" where
  "parse_digits 0 var p = Some (var, p)"
| "parse_digits (Suc n) var [] = None"
| "parse_digits (Suc n) var (c # p) =
     (if is_digit c then parse_digits n (var * 10 + (c - 48)) p else None)"

fun skip_char :: "nat \<Rightarrow> pystr \<Rightarrow> pystr option" where
  "skip_char a [] = None"
| "skip_char a (c # p) = (if c = a then Some p else None)"

text \<open>The separator before a later part: required exactly when the first one was there.\<close>

definition separator :: "bool \<Rightarrow> pystr \<Rightarrow> pystr option" where
  "separator uses_separator p = (if uses_separator then skip_char 45 p else Some p)"

text \<open>The day count of the proleptic Gregorian calendar; day 1 is 0001-01-01.\<close>

definition days_before_year :: "nat \<Rightarrow> nat" where
  "days_before_year y = (y - 1) * 365 + (y - 1) div 4 - (y - 1) div 100 + (y - 1) div 400"

definition days_before_month :: "nat \<Rightarrow> nat \<Rightarrow> nat" where
  "days_before_month y m =
     [0, 0, 31, 59, 90, 120, 151, 181, 212, 243, 273, 304, 334] ! m +
     (if m > 2 \<and> is_leap y then 1 else 0)"

definition ymd_to_ord :: "nat \<Rightarrow> nat \<Rightarrow> nat \<Rightarrow> nat" where
  "ymd_to_ord y m d = days_before_year y + days_before_month y m + d"

definition weekday :: "nat \<Rightarrow> nat \<Rightarrow> nat \<Rightarrow> nat" where
  "weekday y m d = (ymd_to_ord y m d + 6) mod 7"

definition iso_week1_monday :: "nat \<Rightarrow> nat" where
  "iso_week1_monday y =
     (let first_day = ymd_to_ord y 1 1;
          first_weekday = (first_day + 6) mod 7;
          week1_monday = first_day - first_weekday
      in if first_weekday > 3 then week1_monday + 7 else week1_monday)"

definition ord_to_ymd :: "nat \<Rightarrow> date" where
  "ord_to_ymd ordinal =
     (let n = ordinal - 1;
          n400 = n div 146097; n = n mod 146097;
          n100 = n div 36524; n = n mod 36524;
          n4 = n div 1461; n = n mod 1461;
          n1 = n div 365; n = n mod 365;
          y = n400 * 400 + 1 + n100 * 100 + n4 * 4 + n1
      in if n1 = 4 \<or> n100 = 4 then \<lparr>year = y - 1, month = 12, day = 31\<rparr>
         else
           let leapyear = (n1 = 3 \<and> (n4 \<noteq> 24 \<or> n100 = 3));
               m = (n + 50) div 32;
               preceding = [0, 0, 31, 59, 90, 120, 151, 181, 212, 243, 273, 304, 334] ! m +
                           (if m > 2 \<and> leapyear then 1 else 0)
           in if preceding > n
              then \<lparr>year = y, month = m - 1,
                    day = n - (preceding - days_in_month y (m - 1)) + 1\<rparr>
              else \<lparr>year = y, month = m, day = n - preceding + 1\<rparr>)"

text \<open>
  The day of an ISO week date. A week 53 exists in the years that start on a Thursday
  and in the leap years that start on a Wednesday. For the year 0000 the day falls
  before 0001-01-01 and the constructor of \<open>date\<close> rejects it.
\<close>

definition iso_to_ymd :: "nat \<Rightarrow> nat \<Rightarrow> nat \<Rightarrow> date option" where
  "iso_to_ymd iso_year iso_week iso_day =
     (if iso_year = 0 then None
      else if (iso_week = 0 \<or> iso_week \<ge> 53) \<and>
              \<not> (iso_week = 53 \<and>
                 (weekday iso_year 1 1 = 3 \<or> (weekday iso_year 1 1 = 2 \<and> is_leap iso_year)))
      then None
      else if iso_day = 0 \<or> iso_day \<ge> 8 then None
      else Some (ord_to_ymd (iso_week1_monday iso_year + (iso_week - 1) * 7 + iso_day - 1)))"

definition parse_week_date :: "nat \<Rightarrow> bool \<Rightarrow> nat \<Rightarrow> pystr \<Rightarrow> date option" where
  "parse_week_date len uses_separator y p =
     (case parse_digits 2 0 p of
        None \<Rightarrow> None
      | Some (iso_week, p) \<Rightarrow>
          if (if uses_separator then 8 else 7) < len then
            (case separator uses_separator p of
               None \<Rightarrow> None
             | Some p \<Rightarrow>
                 (case parse_digits 1 0 p of
                    None \<Rightarrow> None
                  | Some (iso_day, p) \<Rightarrow> iso_to_ymd y iso_week iso_day))
          else iso_to_ymd y iso_week 1)"

definition parse_month_day :: "bool \<Rightarrow> nat \<Rightarrow> pystr \<Rightarrow> date option" where
  "parse_month_day uses_separator y p =
     (case parse_digits 2 0 p of
        None \<Rightarrow> None
      | Some (m, p) \<Rightarrow>
          (case separator uses_separator p of
             None \<Rightarrow> None
           | Some p \<Rightarrow>
               (case parse_digits 2 0 p of
                  None \<Rightarrow> None
                | Some (d, p) \<Rightarrow> Some \<lparr>year = y, month = m, day = d\<rparr>)))"

definition parse_isoformat_date_py311 :: "nat \<Rightarrow> pystr \<Rightarrow> date option" where
  "parse_isoformat_date_py311 len dtstr =
     (case parse_digits 4 0 dtstr of
        None \<Rightarrow> None
      | Some (y, p) \<Rightarrow>
          (let uses_separator = (skip_char 45 p \<noteq> None);
               p = (case skip_char 45 p of None \<Rightarrow> p | Some q \<Rightarrow> q)
           in case skip_char 87 p of
                Some q \<Rightarrow> parse_week_date len uses_separator y q
              | None \<Rightarrow> parse_month_day uses_separator y p))"

definition fromisoformat_py311 :: "pystr \<Rightarrow> date option" where
  "fromisoformat_py311 s =
     (case utf8_len s of
        None \<Rightarrow> None
      | Some len \<Rightarrow>
          if len = 7 \<or> len = 8 \<or> len = 10 then
            (case parse_isoformat_date_py311 len s of
               None \<Rightarrow> None
             | Some dt \<Rightarrow> if valid_date dt then Some dt else None)
          else None)"

text \<open>
  \<open>date.fromisoformat(v)\<close>: \<open>TypeError\<close> when \<open>v\<close> is not a string, \<open>ValueError\<close> when
  the interpreter's function does not read the string.
\<close>

fun date_fromisoformat :: "(pystr \<Rightarrow> date option) \<Rightarrow> json \<Rightarrow> pyexn + date" where
  "date_fromisoformat fromiso (JStr s) =
     (case fromiso s of None \<Rightarrow> Inl ValueError | Some dt \<Rightarrow> Inr dt)"
| "date_fromisoformat fromiso _ = Inl TypeError"

text \<open>\<open>dt.isoformat()\<close>, that is \<^verbatim>\<open>"%04d-%02d-%02d"\<close>, for the years a date can have.\<close>

definition isoformat :: "date \<Rightarrow> pystr" where
  "isoformat dt =
     [48 + year dt div 1000 mod 10, 48 + year dt div 100 mod 10, 48 + year dt div 10 mod 10,
      48 + year dt mod 10, 45,
      48 + month dt div 10 mod 10, 48 + month dt mod 10, 45,
      48 + day dt div 10 mod 10, 48 + day dt mod 10]"

section \<open>\<open>validate_account_data\<close>\<close>

text \<open>
  The value of the condition
  \<^verbatim>\<open>not isinstance(account_data.get("email"), str) or not validate_email(account_data["email"])\<close>;
  \<open>or\<close> evaluates its right operand only when the left one is false.
\<close>

definition email_rejected :: "(nat \<Rightarrow> bool) \<Rightarrow> (pystr \<times> json) list \<Rightarrow> pyexn + bool" where
  "email_rejected tbl d =
     (if \<not> is_str (dict_get d (py ''email'')) then Inr True
      else case subscript d (py ''email'') of
             Inl e \<Rightarrow> Inl e
           | Inr v \<Rightarrow> (case validate_email tbl v of Inl e \<Rightarrow> Inl e | Inr ok \<Rightarrow> Inr (\<not> ok)))"

text \<open>
  The value of the condition
  \<^verbatim>\<open>"phone_number" in account_data and not isinstance(account_data["phone_number"], str)\<close>.
\<close>

definition phone_rejected :: "(pystr \<times> json) list \<Rightarrow> pyexn + bool" where
  "phone_rejected d =
     (if \<not> dict_contains d (py ''phone_number'') then Inr False
      else case subscript d (py ''phone_number'') of
             Inl e \<Rightarrow> Inl e
           | Inr v \<Rightarrow> Inr (\<not> is_str v))"

text \<open>
  The last statement: the \<open>try\<close> around \<open>date.fromisoformat\<close> catches \<open>TypeError\<close> and
  \<open>ValueError\<close> and lets any other exception through.
\<close>

definition date_joined_check ::
  "(pystr \<Rightarrow> date option) \<Rightarrow> (pystr \<times> json) list \<Rightarrow> pyexn + bool" where
  "date_joined_check fromiso d =
     (if dict_contains d (py ''date_joined'') then
        (case subscript d (py ''date_joined'') of
           Inl e \<Rightarrow> Inl e
         | Inr v \<Rightarrow>
             (case date_fromisoformat fromiso v of
                Inl TypeError \<Rightarrow> Inr False
              | Inl ValueError \<Rightarrow> Inr False
              | Inl e \<Rightarrow> Inl e
              | Inr dt \<Rightarrow> Inr True))
      else Inr True)"

text \<open>
  \<open>validate_account_data\<close>. The argument is whatever \<open>request.get_json()\<close> returned;
  only a dict has the method \<open>get\<close>, so any other value raises \<open>AttributeError\<close> in the
  first line.
\<close>

fun validate_account_data ::
  "(nat \<Rightarrow> bool) \<Rightarrow> (pystr \<Rightarrow> date option) \<Rightarrow> json \<Rightarrow> pyexn + bool" where
  "validate_account_data tbl fromiso (JObj d) =
     (if \<not> is_str (dict_get d (py ''name'')) then Inr False
      else case email_rejected tbl d of
        Inl e \<Rightarrow> Inl e
      | Inr True \<Rightarrow> Inr False
      | Inr False \<Rightarrow>
          (if \<not> is_str (dict_get d (py ''address'')) then Inr False
           else (case phone_rejected d of
                   Inl e \<Rightarrow> Inl e
                 | Inr True \<Rightarrow> Inr False
                 | Inr False \<Rightarrow> date_joined_check fromiso d)))"
| "validate_account_data tbl fromiso _ = Inl AttributeError"

section \<open>The store and the account entity\<close>

text \<open>
  Modelled from the spec: the constants of \<open>service/common/status.py\<close>, which is not among
  the sources; the numbers are those the specification gives for each outcome.
\<close>

definition HTTP_200_OK :: nat where "HTTP_200_OK = 200"
definition HTTP_201_CREATED :: nat where "HTTP_201_CREATED = 201"
definition HTTP_204_NO_CONTENT :: nat where "HTTP_204_NO_CONTENT = 204"
definition HTTP_400_BAD_REQUEST :: nat where "HTTP_400_BAD_REQUEST = 400"
definition HTTP_404_NOT_FOUND :: nat where "HTTP_404_NOT_FOUND = 404"
definition HTTP_415_UNSUPPORTED_MEDIA_TYPE :: nat where "HTTP_415_UNSUPPORTED_MEDIA_TYPE = 415"

text \<open>
  Modelled from the spec: the class \<open>Account\<close> of \<open>service/models.py\<close>, which is not among
  the sources. An entity has the six fields of the data model; a field that is not set
  is \<open>None\<close>.
\<close>

record account =
  acc_id :: "int option"
  name :: "pystr option"
  email :: "pystr option"
  address :: "pystr option"
  phone_number :: "pystr option"
  date_joined :: "date option"

text \<open>Modelled from the spec: \<open>Account()\<close>, an entity with no field set.\<close>

definition Account :: account where
  "Account = \<lparr>acc_id = None, name = None, email = None, address = None,
              phone_number = None, date_joined = None\<rparr>"

text \<open>
  The backing store: the committed rows of the one table, keyed by \<open>id\<close>, and the
  sequence that numbers new rows.
\<close>

record store =
  rows :: "int \<rightharpoonup> account"
  next_id :: int

text \<open>
  Modelled from the spec: \<open>Account.serialize\<close>. The JSON object has the keys \<open>id\<close>,
  \<open>name\<close>, \<open>email\<close>, \<open>address\<close>, \<open>phone_number\<close> and \<open>date_joined\<close>; the date is
  rendered as \<open>YYYY-MM-DD\<close> and a field that is not set as null.
\<close>

definition opt_json :: "('a \<Rightarrow> json) \<Rightarrow> 'a option \<Rightarrow> json" where
  "opt_json f x = (case x of None \<Rightarrow> JNull | Some v \<Rightarrow> f v)"

definition serialize :: "account \<Rightarrow> json" where
  "serialize a =
     JObj [(py ''id'', opt_json JInt (acc_id a)),
           (py ''name'', opt_json JStr (name a)),
           (py ''email'', opt_json JStr (email a)),
           (py ''address'', opt_json JStr (address a)),
           (py ''phone_number'', opt_json JStr (phone_number a)),
           (py ''date_joined'', opt_json (\<lambda>dt. JStr (isoformat dt)) (date_joined a))]"

text \<open>Sequencing of computations that may raise.\<close>

definition on_success :: "pyexn + 'a \<Rightarrow> ('a \<Rightarrow> pyexn + 'b) \<Rightarrow> pyexn + 'b" where
  "on_success m f = (case m of Inl e \<Rightarrow> Inl e | Inr x \<Rightarrow> f x)"

text \<open>
  Modelled from the spec: \<open>Account.deserialize\<close>. It populates the fields of the entity
  from the matching keys of a JSON object and leaves \<open>id\<close> alone; unknown keys are
  ignored; a missing \<open>phone_number\<close> leaves the field unset and a missing \<open>date_joined\<close>
  gives the current date; a date that is there is read as the validator reads it. A body that does not hold valid account fields (section 4.1
  of the specification) is a deserialization failure, \<open>DataValidationError\<close>.
\<close>

definition required_str :: "(pystr \<times> json) list \<Rightarrow> pystr \<Rightarrow> pyexn + pystr" where
  "required_str d k =
     (case map_of d k of Some (JStr s) \<Rightarrow> Inr s | _ \<Rightarrow> Inl DataValidationError)"

definition optional_str :: "(pystr \<times> json) list \<Rightarrow> pystr \<Rightarrow> pyexn + pystr option" where
  "optional_str d k =
     (case map_of d k of
        None \<Rightarrow> Inr None
      | Some (JStr s) \<Rightarrow> Inr (Some s)
      | Some _ \<Rightarrow> Inl DataValidationError)"

definition optional_date ::
  "(pystr \<Rightarrow> date option) \<Rightarrow> date \<Rightarrow> (pystr \<times> json) list \<Rightarrow> pystr \<Rightarrow> pyexn + date" where
  "optional_date fromiso today d k =
     (case map_of d k of
        None \<Rightarrow> Inr today
      | Some v \<Rightarrow>
          (case date_fromisoformat fromiso v of
             Inl e \<Rightarrow> Inl DataValidationError
           | Inr dt \<Rightarrow> Inr dt))"

fun deserialize ::
  "(nat \<Rightarrow> bool) \<Rightarrow> (pystr \<Rightarrow> date option) \<Rightarrow> date \<Rightarrow> account \<Rightarrow> json \<Rightarrow>
   pyexn + account" where
  "deserialize tbl fromiso today a (JObj d) =
     on_success (required_str d (py ''name'')) (\<lambda>n.
     on_success (required_str d (py ''email'')) (\<lambda>e.
     if \<not> re_match tbl pattern e then Inl DataValidationError else
     on_success (required_str d (py ''address'')) (\<lambda>ad.
     on_success (optional_str d (py ''phone_number'')) (\<lambda>p.
     on_success (optional_date fromiso today d (py ''date_joined'')) (\<lambda>dj.
     Inr (a\<lparr>name := Some n, email := Some e, address := Some ad,
            phone_number := p, date_joined := Some dj\<rparr>))))))"
| "deserialize tbl fromiso today a _ = Inl DataValidationError"

text \<open>
  Modelled from the spec: \<open>Account.create\<close>. It assigns a new \<open>id\<close>, the next number of
  the sequence, and persists the entity under it. A store that rejects the write is
  outside this model.
\<close>

definition create :: "account \<Rightarrow> store \<Rightarrow> account \<times> store" where
  "create a st =
     (let a' = a\<lparr>acc_id := Some (next_id st)\<rparr>
      in (a', st\<lparr>rows := (rows st)(next_id st \<mapsto> a'), next_id := next_id st + 1\<rparr>))"

text \<open>
  Modelled from the spec: \<open>Account.find\<close>, which returns the record or \<open>None\<close> and never
  raises. \<open>Account.query.get\<close> of the object-relational mapper does the same.
\<close>

definition find :: "store \<Rightarrow> int \<Rightarrow> account option" where
  "find st i = rows st i"

definition query_get :: "store \<Rightarrow> int \<Rightarrow> account option" where
  "query_get st i = rows st i"

text \<open>
  \<open>db.session.commit()\<close> after the entity read under \<open>i\<close> was changed to \<open>a\<close>, and
  \<open>db.session.delete(account)\<close> followed by \<open>db.session.commit()\<close> for the row \<open>i\<close>.
\<close>

definition commit_update :: "store \<Rightarrow> int \<Rightarrow> account \<Rightarrow> store" where
  "commit_update st i a = st\<lparr>rows := (rows st)(i \<mapsto> a)\<rparr>"

definition commit_delete :: "store \<Rightarrow> int \<Rightarrow> store" where
  "commit_delete st i = st\<lparr>rows := (rows st)(i := None)\<rparr>"

section \<open>Requests and responses\<close>

text \<open>
  What a handler reads of the request: the value of
  \<open>request.headers.get("Content-Type")\<close> and the outcome of \<open>request.get_json()\<close>,
  which is the parsed body or the exception the framework raises for it.
\<close>

record request =
  content_type_header :: "pystr option"
  get_json :: "pyexn + json"

datatype body = Json json | Text pystr

record response =
  body :: body
  status_code :: nat
  headers :: "(pystr \<times> pystr) list"

text \<open>
  The status the client sees. The framework turns \<open>abort(c, m)\<close> into a response with
  status \<open>c\<close>. Modelled from the spec: the handler of \<open>DataValidationError\<close> in
  \<open>service/common/error_handlers.py\<close>, which is not among the sources, answers 400.
  Any other exception is an internal error.
\<close>

fun http_status :: "pyexn + response \<Rightarrow> nat" where
  "http_status (Inr r) = status_code r"
| "http_status (Inl (HTTPException c m)) = c"
| "http_status (Inl DataValidationError) = HTTP_400_BAD_REQUEST"
| "http_status (Inl e) = 500"

text \<open>\<open>str(n)\<close> for an integer, as the messages of \<open>abort\<close> format the account id.\<close>

function str_nat :: "nat \<Rightarrow> pystr" where
  "str_nat n = (if n < 10 then [48 + n] else str_nat (n div 10) @ [48 + n mod 10])"
  by pat_completeness auto
termination
  by (relation "measure (\<lambda>n. n)") auto

definition str_int :: "int \<Rightarrow> pystr" where
  "str_int i = (if i < 0 then 45 # str_nat (nat (- i)) else str_nat (nat i))"

section \<open>The handlers of \<open>service/routes.py\<close>\<close>

text \<open>
  \<open>check_content_type\<close>: returns when the header is set, non-empty and equal to the
  media type, and aborts with 415 otherwise.
\<close>

definition check_content_type :: "request \<Rightarrow> pystr \<Rightarrow> pyexn + unit" where
  "check_content_type req media_type =
     (let content_type = content_type_header req in
      if content_type \<noteq> None \<and> content_type \<noteq> Some [] \<and> content_type = Some media_type
      then Inr ()
      else Inl (HTTPException HTTP_415_UNSUPPORTED_MEDIA_TYPE
                  (py ''Content-Type must be '' @ media_type)))"

text \<open>
  \<open>create_accounts\<close>, the handler of \<open>POST /accounts\<close>. A handler takes the store and
  returns its response, or the exception that ends it, and the store it leaves.
\<close>

definition create_accounts ::
  "(nat \<Rightarrow> bool) \<Rightarrow> (pystr \<Rightarrow> date option) \<Rightarrow> date \<Rightarrow> request \<Rightarrow> store \<Rightarrow>
   (pyexn + response) \<times> store" where
  "create_accounts tbl fromiso today req st =
     (case check_content_type req (py ''application/json'') of
        Inl e \<Rightarrow> (Inl e, st)
      | Inr u \<Rightarrow>
          (case get_json req of
             Inl e \<Rightarrow> (Inl e, st)
           | Inr data \<Rightarrow>
               (case deserialize tbl fromiso today Account data of
                  Inl e \<Rightarrow> (Inl e, st)
                | Inr account \<Rightarrow>
                    (case create account st of
                       (account', st') \<Rightarrow>
                         (Inr \<lparr>body = Json (serialize account'),
                               status_code = HTTP_201_CREATED,
                               headers = [(py ''Location'', py ''/'')]\<rparr>, st')))))"

text \<open>\<open>get_accounts\<close>, the handler of \<open>GET /accounts/<id>\<close>; it leaves the store alone.\<close>

definition get_accounts :: "int \<Rightarrow> store \<Rightarrow> pyexn + response" where
  "get_accounts account_id st =
     (case find st account_id of
        None \<Rightarrow>
          Inl (HTTPException HTTP_404_NOT_FOUND
                 (py ''Account with id ['' @ str_int account_id @ py ''] could not be found.''))
      | Some account \<Rightarrow>
          Inr \<lparr>body = Json (serialize account), status_code = HTTP_200_OK, headers = []\<rparr>)"

text \<open>\<open>update_account\<close>, the handler of \<open>PUT /accounts/<id>\<close>.\<close>

definition update_account ::
  "(nat \<Rightarrow> bool) \<Rightarrow> (pystr \<Rightarrow> date option) \<Rightarrow> date \<Rightarrow> int \<Rightarrow> request \<Rightarrow> store \<Rightarrow>
   (pyexn + response) \<times> store" where
  "update_account tbl fromiso today account_id req st =
     (case query_get st account_id of
        None \<Rightarrow>
          (Inl (HTTPException HTTP_404_NOT_FOUND
                  (py ''Account with id ['' @ str_int account_id @ py ''] was not found.'')), st)
      | Some account \<Rightarrow>
          (case get_json req of
             Inl e \<Rightarrow> (Inl e, st)
           | Inr account_data \<Rightarrow>
               (case validate_account_data tbl fromiso account_data of
                  Inl e \<Rightarrow> (Inl e, st)
                | Inr ok \<Rightarrow>
                    if \<not> ok
                    then (Inl (HTTPException HTTP_400_BAD_REQUEST
                                 (py ''Invalid account data provided.'')), st)
                    else
                      (case deserialize tbl fromiso today account account_data of
                         Inl e \<Rightarrow> (Inl e, st)
                       | Inr account' \<Rightarrow>
                           (Inr \<lparr>body = Json (serialize account'),
                                 status_code = HTTP_200_OK, headers = []\<rparr>,
                            commit_update st account_id account')))))"

text \<open>\<open>delete_account\<close>, the handler of \<open>DELETE /accounts/<id>\<close>.\<close>

definition delete_account :: "int \<Rightarrow> store \<Rightarrow> (pyexn + response) \<times> store" where
  "delete_account account_id st =
     (case query_get st account_id of
        None \<Rightarrow>
          (Inl (HTTPException HTTP_404_NOT_FOUND
                  (py ''Account with id ['' @ str_int account_id @ py ''] was not found.'')), st)
      | Some account \<Rightarrow>
          (Inr \<lparr>body = Text [], status_code = HTTP_204_NO_CONTENT, headers = []\<rparr>,
           commit_delete st account_id))"

section \<open>The validation rules as the specification words them\<close>

text \<open>
  A word character, a character of the set \<^verbatim>\<open>[\w.-]\<close>, and a string that the pattern
  matches: a nonempty run of \<^verbatim>\<open>[\w.-]\<close>, an \<open>@\<close>, a nonempty run of \<^verbatim>\<open>[\w.-]\<close>, a
  dot and a nonempty run of word characters, up to the end of the string, where \<open>$\<close>
  is the one of Python's \<open>re\<close> (the end, or the newline that ends the string).
\<close>

definition word_char :: "(nat \<Rightarrow> bool) \<Rightarrow> nat \<Rightarrow> bool" where
  "word_char tbl c = (c = 95 \<or> isalnum tbl c)"

definition name_char :: "(nat \<Rightarrow> bool) \<Rightarrow> nat \<Rightarrow> bool" where
  "name_char tbl c = (word_char tbl c \<or> c = 46 \<or> c = 45)"

definition matches_pattern :: "(nat \<Rightarrow> bool) \<Rightarrow> pystr \<Rightarrow> bool" where
  "matches_pattern tbl e =
     (\<exists>l d t. l \<noteq> [] \<and> list_all (name_char tbl) l \<and> d \<noteq> [] \<and> list_all (name_char tbl) d \<and>
        t \<noteq> [] \<and> list_all (word_char tbl) t \<and>
        (e = l @ [64] @ d @ [46] @ t \<or> e = l @ [64] @ d @ [46] @ t @ [10]))"


text \<open>A string that is the \<open>YYYY-MM-DD\<close> form of a day of the calendar.\<close>

definition iso_date_string :: "pystr \<Rightarrow> bool" where
  "iso_date_string s = (\<exists>dt. valid_date dt \<and> s = isoformat dt)"

text \<open>The five rules of the validator, each as the specification states it.\<close>

definition spec_valid :: "(nat \<Rightarrow> bool) \<Rightarrow> (pystr \<times> json) list \<Rightarrow> bool" where
  "spec_valid tbl d =
     ((\<exists>n. map_of d (py ''name'') = Some (JStr n)) \<and>
      (\<exists>e. map_of d (py ''email'') = Some (JStr e) \<and> matches_pattern tbl e) \<and>
      (\<exists>a. map_of d (py ''address'') = Some (JStr a)) \<and>
      (\<forall>v. map_of d (py ''phone_number'') = Some v \<longrightarrow> is_str v) \<and>
      (\<forall>v. map_of d (py ''date_joined'') = Some v \<longrightarrow> (\<exists>s. v = JStr s \<and> iso_date_string s)))"

text \<open>
  The rules as the validator applies them: the first four as above, and \<open>date_joined\<close>,
  when present, a string that the interpreter's \<open>date.fromisoformat\<close> reads.
\<close>

definition run_valid ::
  "(nat \<Rightarrow> bool) \<Rightarrow> (pystr \<Rightarrow> date option) \<Rightarrow> (pystr \<times> json) list \<Rightarrow> bool" where
  "run_valid tbl fromiso d =
     ((\<exists>n. map_of d (py ''name'') = Some (JStr n)) \<and>
      (\<exists>e. map_of d (py ''email'') = Some (JStr e) \<and> matches_pattern tbl e) \<and>
      (\<exists>a. map_of d (py ''address'') = Some (JStr a)) \<and>
      (\<forall>v. map_of d (py ''phone_number'') = Some v \<longrightarrow> is_str v) \<and>
      (\<forall>v. map_of d (py ''date_joined'') = Some v \<longrightarrow> (\<exists>s dt. v = JStr s \<and> fromiso s = Some dt)))"

text \<open>
  What an interpreter's \<open>date.fromisoformat\<close> may be known to do: read every
  \<open>YYYY-MM-DD\<close> form of a day of the calendar as that day, which every version does,
  and read nothing else, which the versions up to 3.10 do.
\<close>

definition reads_iso_dates :: "(pystr \<Rightarrow> date option) \<Rightarrow> bool" where
  "reads_iso_dates fromiso = (\<forall>dt. valid_date dt \<longrightarrow> fromiso (isoformat dt) = Some dt)"

definition reads_only_iso_dates :: "(pystr \<Rightarrow> date option) \<Rightarrow> bool" where
  "reads_only_iso_dates fromiso =
     (\<forall>s dt. fromiso s = Some dt \<longrightarrow> valid_date dt \<and> isoformat dt = s)"

text \<open>
  The values a payload submits: the string under a key, the date under \<open>date_joined\<close>
  (the current date when the key is missing), and an entity whose validated fields are
  all overwritten with them while \<open>id\<close> stays.
\<close>

definition str_field :: "(pystr \<times> json) list \<Rightarrow> pystr \<Rightarrow> pystr option" where
  "str_field d k = (case map_of d k of Some (JStr s) \<Rightarrow> Some s | _ \<Rightarrow> None)"

definition date_field ::
  "(pystr \<Rightarrow> date option) \<Rightarrow> date \<Rightarrow> (pystr \<times> json) list \<Rightarrow> date option" where
  "date_field fromiso today d =
     (case map_of d (py ''date_joined'') of
        None \<Rightarrow> Some today
      | Some v \<Rightarrow> (case date_fromisoformat fromiso v of Inl e \<Rightarrow> None | Inr dt \<Rightarrow> Some dt))"

definition overwritten ::
  "(pystr \<Rightarrow> date option) \<Rightarrow> date \<Rightarrow> account \<Rightarrow> (pystr \<times> json) list \<Rightarrow> account" where
  "overwritten fromiso today a d =
     a\<lparr>name := str_field d (py ''name''), email := str_field d (py ''email''),
       address := str_field d (py ''address''),
       phone_number := str_field d (py ''phone_number''),
       date_joined := date_field fromiso today d\<rparr>"

text \<open>
  A table in which no code point beyond ASCII is alphanumeric; on ASCII text every table
  gives the same result.
\<close>

definition ascii_only :: "nat \<Rightarrow> bool" where
  "ascii_only c = False"

text \<open>A stored account, used to evaluate the handlers.\<close>

definition ann :: account where
  "ann = \<lparr>acc_id = Some 1, name = Some (py ''Ann''), email = Some (py ''ann@example.com''),
          address = Some (py ''1 Rd''), phone_number = None,
          date_joined = Some \<lparr>year = 2024, month = 1, day = 2\<rparr>\<rparr>"

section \<open>The pattern of \<open>validate_email\<close>\<close>

lemma re_run_PlusSet:
  "re_run tbl (PlusSet k # p) i s \<longleftrightarrow>
     (\<exists>xs ys. xs \<noteq> [] \<and> list_all (in_cset tbl k) xs \<and> s = xs @ ys \<and>
        re_run tbl p (i + length xs) ys)"
proof (induction s arbitrary: i)
  case Nil
  then show ?case by simp
next
  case (Cons c cs)
  show ?case
  proof
    assume "re_run tbl (PlusSet k # p) i (c # cs)"
    then have c: "in_cset tbl k c"
      and alt: "re_run tbl (PlusSet k # p) (Suc i) cs \<or> re_run tbl p (Suc i) cs"
      by simp_all
    from alt show "\<exists>xs ys. xs \<noteq> [] \<and> list_all (in_cset tbl k) xs \<and> c # cs = xs @ ys \<and>
        re_run tbl p (i + length xs) ys"
    proof
      assume "re_run tbl (PlusSet k # p) (Suc i) cs"
      then obtain xs ys where "xs \<noteq> []" "list_all (in_cset tbl k) xs" "cs = xs @ ys"
        "re_run tbl p (Suc i + length xs) ys"
        using Cons.IH by blast
      with c have "c # xs \<noteq> [] \<and> list_all (in_cset tbl k) (c # xs) \<and> c # cs = (c # xs) @ ys \<and>
        re_run tbl p (i + length (c # xs)) ys" by simp
      then show ?thesis by blast
    next
      assume "re_run tbl p (Suc i) cs"
      with c have "[c] \<noteq> [] \<and> list_all (in_cset tbl k) [c] \<and> c # cs = [c] @ cs \<and>
        re_run tbl p (i + length [c]) cs" by simp
      then show ?thesis by blast
    qed
  next
    assume "\<exists>xs ys. xs \<noteq> [] \<and> list_all (in_cset tbl k) xs \<and> c # cs = xs @ ys \<and>
        re_run tbl p (i + length xs) ys"
    then obtain xs ys where xs: "xs \<noteq> []" "list_all (in_cset tbl k) xs" "c # cs = xs @ ys"
        "re_run tbl p (i + length xs) ys" by blast
    then obtain zs where z: "xs = c # zs" "cs = zs @ ys" by (cases xs) auto
    show "re_run tbl (PlusSet k # p) i (c # cs)"
    proof (cases "zs = []")
      case True
      with xs z show ?thesis by simp
    next
      case False
      with xs z have "re_run tbl (PlusSet k # p) (Suc i) cs"
        using Cons.IH [of "Suc i"] by auto
      with xs z show ?thesis by simp
    qed
  qed
qed

lemma re_run_Lit:
  "re_run tbl (Lit a # p) i s \<longleftrightarrow> (\<exists>cs. s = a # cs \<and> re_run tbl p (Suc i) cs)"
  by (cases s) auto

lemma in_cset_name: "in_cset tbl [Word, Chr 46, Chr 45] = name_char tbl"
  by (auto simp: in_cset_def name_char_def word_char_def fun_eq_iff)

lemma in_cset_word: "in_cset tbl [Word] = word_char tbl"
  by (auto simp: in_cset_def word_char_def fun_eq_iff)

lemma re_match_pattern: "re_match tbl pattern e \<longleftrightarrow> matches_pattern tbl e"
proof
  assume "re_match tbl pattern e"
  then have "re_run tbl (PlusSet [Word, Chr 46, Chr 45] # Lit 64 # PlusSet [Word, Chr 46, Chr 45] #
      Lit 46 # PlusSet [Word] # [Eol]) 0 e"
    by (simp add: re_match_def pattern_def)
  then obtain l r1 where l: "l \<noteq> []" "list_all (name_char tbl) l" "e = l @ r1"
    and r1: "re_run tbl (Lit 64 # PlusSet [Word, Chr 46, Chr 45] # Lit 46 # PlusSet [Word] # [Eol])
      (0 + length l) r1"
    unfolding re_run_PlusSet [of tbl "[Word, Chr 46, Chr 45]"] in_cset_name by blast
  from r1 obtain r2 where r2: "r1 = 64 # r2"
    "re_run tbl (PlusSet [Word, Chr 46, Chr 45] # Lit 46 # PlusSet [Word] # [Eol])
      (Suc (0 + length l)) r2"
    unfolding re_run_Lit by blast
  from r2(2) obtain d r3 where d: "d \<noteq> []" "list_all (name_char tbl) d" "r2 = d @ r3"
    and r3: "re_run tbl (Lit 46 # PlusSet [Word] # [Eol]) (Suc (0 + length l) + length d) r3"
    unfolding re_run_PlusSet [of tbl "[Word, Chr 46, Chr 45]"] in_cset_name by blast
  from r3 obtain r4 where r4: "r3 = 46 # r4"
    "re_run tbl (PlusSet [Word] # [Eol]) (Suc (Suc (0 + length l) + length d)) r4"
    unfolding re_run_Lit by blast
  from r4(2) obtain t r5 where t: "t \<noteq> []" "list_all (word_char tbl) t" "r4 = t @ r5"
    and r5: "re_run tbl [Eol] (Suc (Suc (0 + length l) + length d) + length t) r5"
    unfolding re_run_PlusSet [of tbl "[Word]"] in_cset_word by blast
  from r5 have "r5 = [] \<or> r5 = [10]" by simp
  with l(3) r2(1) d(3) r4(1) t(3)
  have "e = l @ [64] @ d @ [46] @ t \<or> e = l @ [64] @ d @ [46] @ t @ [10]" by auto
  with l(1,2) d(1,2) t(1,2) show "matches_pattern tbl e"
    unfolding matches_pattern_def by blast
next
  assume "matches_pattern tbl e"
  then obtain l d t r5 where *: "l \<noteq> []" "list_all (name_char tbl) l" "d \<noteq> []"
     "list_all (name_char tbl) d" "t \<noteq> []" "list_all (word_char tbl) t"
     "e = l @ 64 # d @ 46 # t @ r5" "r5 = [] \<or> r5 = [10]"
    unfolding matches_pattern_def by auto
  from *(8) have "re_run tbl [Eol] (Suc (Suc (0 + length l) + length d) + length t) r5"
    by auto
  with *(5,6) have "re_run tbl (PlusSet [Word] # [Eol]) (Suc (Suc (0 + length l) + length d)) (t @ r5)"
    unfolding re_run_PlusSet [of tbl "[Word]"] in_cset_word by blast
  then have "re_run tbl (Lit 46 # PlusSet [Word] # [Eol]) (Suc (0 + length l) + length d)
      (46 # t @ r5)"
    unfolding re_run_Lit by blast
  with *(3,4) have "re_run tbl (PlusSet [Word, Chr 46, Chr 45] # Lit 46 # PlusSet [Word] # [Eol])
      (Suc (0 + length l)) (d @ 46 # t @ r5)"
    unfolding re_run_PlusSet [of tbl "[Word, Chr 46, Chr 45]"] in_cset_name by blast
  then have "re_run tbl (Lit 64 # PlusSet [Word, Chr 46, Chr 45] # Lit 46 # PlusSet [Word] # [Eol])
      (0 + length l) (64 # d @ 46 # t @ r5)"
    unfolding re_run_Lit by blast
  with *(1,2) have "re_run tbl (PlusSet [Word, Chr 46, Chr 45] # Lit 64 #
      PlusSet [Word, Chr 46, Chr 45] # Lit 46 # PlusSet [Word] # [Eol]) 0 (l @ 64 # d @ 46 # t @ r5)"
    unfolding re_run_PlusSet [of tbl "[Word, Chr 46, Chr 45]" "Lit 64 # _"] in_cset_name by blast
  with *(7) show "re_match tbl pattern e"
    by (simp add: re_match_def pattern_def)
qed

section \<open>Dates: parsing and printing are inverse\<close>

lemma dm: "d < 10 \<Longrightarrow> (10 * x + d) div 10 = (x::nat) \<and> (10 * x + d) mod 10 = d"
  by simp

lemma d100: "(y::nat) div 100 = y div 10 div 10"
  by (simp add: div_mult2_eq [symmetric])

lemma d1000: "(y::nat) div 1000 = y div 10 div 10 div 10"
  by (simp add: div_mult2_eq [symmetric])

lemma h4: "1000 * a + 100 * b + 10 * c + d = 10 * (10 * (10 * a + b) + c) + (d::nat)"
  by simp

lemma digits4: "a < 10 \<Longrightarrow> b < 10 \<Longrightarrow> c < 10 \<Longrightarrow> d < 10 \<Longrightarrow>
  (1000 * a + 100 * b + 10 * c + d) div 1000 mod 10 = (a::nat) \<and>
  (1000 * a + 100 * b + 10 * c + d) div 100 mod 10 = b \<and>
  (1000 * a + 100 * b + 10 * c + d) div 10 mod 10 = c \<and>
  (1000 * a + 100 * b + 10 * c + d) mod 10 = d"
  unfolding h4 d100 d1000 by (simp only: dm mod_less simp_thms)

lemma undigits2: "y \<le> 99 \<Longrightarrow> 10 * (y div 10 mod 10) + y mod 10 = (y::nat)"
  by simp

lemma undigits4: "y \<le> 9999 \<Longrightarrow>
  1000 * (y div 1000 mod 10) + 100 * (y div 100 mod 10) + 10 * (y div 10 mod 10) + y mod 10 = (y::nat)"
proof -
  assume y: "y \<le> 9999"
  then have "y div 1000 < 10" by simp
  then have a: "y div 1000 mod 10 = y div 1000" by simp
  have b: "y div 100 mod 10 = y div 100 - 10 * (y div 1000)"
    unfolding d100 d1000 by (simp add: minus_mult_div_eq_mod)
  have c: "y div 10 mod 10 = y div 10 - 10 * (y div 100)"
    unfolding d100 by (simp add: minus_mult_div_eq_mod)
  have d: "y mod 10 = y - 10 * (y div 10)"
    by (simp add: minus_mult_div_eq_mod)
  have 1: "10 * (y div 10) \<le> y" by simp
  have 2: "10 * (y div 100) \<le> y div 10" unfolding d100 by simp
  have 3: "10 * (y div 1000) \<le> y div 100" unfolding d100 d1000 by simp
  show ?thesis unfolding a b c d using 1 2 3 by linarith
qed

lemma parse_shape:
  assumes "parse_isoformat_date s = Some dt"
  obtains y1 y2 y3 y4 s1 m1 m2 s2 d1 d2 where "s = [y1, y2, y3, y4, s1, m1, m2, s2, d1, d2]"
  using assms by (cases s rule: parse_isoformat_date.cases) simp_all


lemma digits2: "a < 10 \<Longrightarrow> b < 10 \<Longrightarrow>
  (10 * a + b) div 10 mod 10 = (a::nat) \<and> (10 * a + b) mod 10 = b"
  by simp

lemma is_digit_val: "is_digit c \<Longrightarrow> c - 48 < 10 \<and> 48 + (c - 48) = c"
  by (auto simp: is_digit_def)

lemma parse_isoformat:
  assumes "parse_isoformat_date s = Some dt"
  shows "isoformat dt = s"
proof -
  from assms obtain y1 y2 y3 y4 s1 m1 m2 s2 d1 d2
    where s: "s = [y1, y2, y3, y4, s1, m1, m2, s2, d1, d2]"
    by (rule parse_shape)
  from assms have dg: "is_digit y1" "is_digit y2" "is_digit y3" "is_digit y4"
      "is_digit m1" "is_digit m2" "is_digit d1" "is_digit d2" and sep: "s1 = 45" "s2 = 45"
    and dt: "dt = \<lparr>year = 1000 * (y1 - 48) + 100 * (y2 - 48) + 10 * (y3 - 48) + (y4 - 48),
                 month = 10 * (m1 - 48) + (m2 - 48),
                 day = 10 * (d1 - 48) + (d2 - 48)\<rparr>"
    unfolding s by (simp_all split: if_splits)
  note y = digits4 [of "y1 - 48" "y2 - 48" "y3 - 48" "y4 - 48"]
  note m = digits2 [of "m1 - 48" "m2 - 48"]
  note d = digits2 [of "d1 - 48" "d2 - 48"]
  show ?thesis
    unfolding s dt isoformat_def using dg sep y m d
    by (simp only: date.simps is_digit_val list.inject simp_thms)
qed

lemma isoformat_parse:
  assumes "valid_date dt"
  shows "parse_isoformat_date (isoformat dt) = Some dt"
proof -
  from assms have y: "year dt \<le> 9999" and m: "month dt \<le> 99" and d0: "day dt \<le> days_in_month (year dt) (month dt)"
    by (simp_all add: valid_date_def)
  have "days_in_month (year dt) (month dt) \<le> 99" by (simp add: days_in_month_def)
  with d0 have d: "day dt \<le> 99" by simp
  have dig: "\<And>n::nat. is_digit (48 + n mod 10)" by (simp add: is_digit_def)
  have sub: "\<And>n::nat. 48 + n - 48 = n" by simp
  show ?thesis
    unfolding isoformat_def parse_isoformat_date.simps
    by (simp only: dig sub simp_thms if_True undigits4 [OF y] undigits2 [OF m] undigits2 [OF d]) simp
qed

section \<open>What the two versions of \<open>date.fromisoformat\<close> read\<close>

lemma py310_reads_iso_dates: "reads_iso_dates fromisoformat_py310"
  by (simp add: reads_iso_dates_def fromisoformat_py310_def isoformat_parse)

lemma py310_reads_only_iso_dates: "reads_only_iso_dates fromisoformat_py310"
  unfolding reads_only_iso_dates_def fromisoformat_py310_def
  by (auto split: option.splits if_splits dest: parse_isoformat)

lemma iso_date_string_length: "iso_date_string s \<Longrightarrow> length s = 10"
  by (auto simp: iso_date_string_def isoformat_def)

lemma parse_digits_step:
  "a < 10 \<Longrightarrow> parse_digits (Suc n) var ((48 + a) # p) = parse_digits n (var * 10 + a) p"
  by (simp add: is_digit_def)

lemma parse_digits_2:
  assumes "a < 10" "b < 10"
  shows "parse_digits 2 0 ((48 + a) # (48 + b) # p) = Some (10 * a + b, p)"
proof -
  have "parse_digits (Suc (Suc 0)) 0 ((48 + a) # (48 + b) # p) = Some ((0 * 10 + a) * 10 + b, p)"
    by (simp only: parse_digits_step [OF assms(1)] parse_digits_step [OF assms(2)]
        parse_digits.simps(1))
  then show ?thesis by (simp add: numeral_2_eq_2 del: parse_digits.simps)
qed

lemma parse_digits_4:
  assumes "a < 10" "b < 10" "c < 10" "d < 10"
  shows "parse_digits 4 0 ((48 + a) # (48 + b) # (48 + c) # (48 + d) # p) =
     Some (1000 * a + 100 * b + 10 * c + d, p)"
proof -
  have "parse_digits (Suc (Suc (Suc (Suc 0)))) 0 ((48 + a) # (48 + b) # (48 + c) # (48 + d) # p) =
      Some ((((0 * 10 + a) * 10 + b) * 10 + c) * 10 + d, p)"
    by (simp only: parse_digits_step [OF assms(1)] parse_digits_step [OF assms(2)]
        parse_digits_step [OF assms(3)] parse_digits_step [OF assms(4)] parse_digits.simps(1))
  moreover have "(4::nat) = Suc (Suc (Suc (Suc 0)))" by simp
  moreover have "(((0 * 10 + a) * 10 + b) * 10 + c) * 10 + d = 1000 * a + 100 * b + 10 * c + d"
    by simp
  ultimately show ?thesis by (simp only:)
qed

lemma utf8_len_isoformat: "utf8_len (isoformat dt) = Some 10"
proof -
  have "\<And>n::nat. 48 + n mod 10 < 128" by simp
  then show ?thesis by (simp add: isoformat_def)
qed

lemma skip_digit:
  "n < 10 \<Longrightarrow> skip_char 87 ((48 + n) # p) = None \<and> skip_char 45 ((48 + n) # p) = None"
  by simp

lemma parse_isoformat_date_py311_iso:
  assumes "a < 10" "b < 10" "c < 10" "d < 10" "e < 10" "f < 10" "g < 10" "h < 10"
  shows "parse_isoformat_date_py311 10
           [48 + a, 48 + b, 48 + c, 48 + d, 45, 48 + e, 48 + f, 45, 48 + g, 48 + h] =
         Some \<lparr>year = 1000 * a + 100 * b + 10 * c + d, month = 10 * e + f, day = 10 * g + h\<rparr>"
proof -
  have 1: "parse_digits 4 0 [48 + a, 48 + b, 48 + c, 48 + d, 45, 48 + e, 48 + f, 45, 48 + g, 48 + h]
      = Some (1000 * a + 100 * b + 10 * c + d, [45, 48 + e, 48 + f, 45, 48 + g, 48 + h])"
    by (rule parse_digits_4 [OF assms(1-4)])
  have 2: "skip_char 45 [45, 48 + e, 48 + f, 45, 48 + g, 48 + h] =
      Some [48 + e, 48 + f, 45, 48 + g, 48 + h]"
    by simp
  have 3: "skip_char 87 [48 + e, 48 + f, 45, 48 + g, 48 + h] = None"
    using skip_digit [OF assms(5)] by blast
  have 4: "parse_month_day True y [48 + e, 48 + f, 45, 48 + g, 48 + h]
      = Some \<lparr>year = y, month = 10 * e + f, day = 10 * g + h\<rparr>" for y
    unfolding parse_month_day_def separator_def
      parse_digits_2 [OF assms(5,6), of "[45, 48 + g, 48 + h]"]
    by (simp only: option.case prod.case if_True skip_char.simps refl
        parse_digits_2 [OF assms(7,8), of "[]"])
  show ?thesis
    unfolding parse_isoformat_date_py311_def 1 2 3
    by (simp only: 1 2 3 4 option.case prod.case Let_def option.distinct not_False_eq_True simp_thms)
qed

lemma py311_reads_iso_dates: "reads_iso_dates fromisoformat_py311"
  unfolding reads_iso_dates_def
proof (intro allI impI)
  fix dt assume v: "valid_date dt"
  then have y: "year dt \<le> 9999" and m: "month dt \<le> 99"
    and d0: "day dt \<le> days_in_month (year dt) (month dt)"
    by (simp_all add: valid_date_def)
  have "days_in_month (year dt) (month dt) \<le> 99" by (simp add: days_in_month_def)
  with d0 have d: "day dt \<le> 99" by simp
  have lt: "\<And>n::nat. n mod 10 < 10" by simp
  have "parse_isoformat_date_py311 10 (isoformat dt) =
      Some \<lparr>year = year dt, month = month dt, day = day dt\<rparr>"
    unfolding isoformat_def
    using parse_isoformat_date_py311_iso [OF lt lt lt lt lt lt lt lt,
        of "year dt div 1000" "year dt div 100" "year dt div 10" "year dt"
           "month dt div 10" "month dt" "day dt div 10" "day dt"]
    by (simp only: undigits4 [OF y] undigits2 [OF m] undigits2 [OF d])
  then have "parse_isoformat_date_py311 10 (isoformat dt) = Some dt" by simp
  with v show "fromisoformat_py311 (isoformat dt) = Some dt"
    by (simp add: fromisoformat_py311_def utf8_len_isoformat)
qed

section \<open>The validator decides the rules\<close>

lemma is_str_iff: "is_str v \<longleftrightarrow> (\<exists>s. v = JStr s)"
  by (cases v) simp_all

lemma is_str_dict_get: "is_str (dict_get d k) \<longleftrightarrow> (\<exists>s. map_of d k = Some (JStr s))"
  by (auto simp: dict_get_def is_str_iff split: option.splits)

lemma email_rejected_eq:
  "email_rejected tbl d =
     Inr (\<not> (\<exists>e. map_of d (py ''email'') = Some (JStr e) \<and> matches_pattern tbl e))"
proof (cases "is_str (dict_get d (py ''email''))")
  case False
  then show ?thesis
    by (auto simp: email_rejected_def is_str_dict_get)
next
  case True
  then obtain e where e: "map_of d (py ''email'') = Some (JStr e)"
    by (auto simp: is_str_dict_get)
  with True show ?thesis
    by (simp add: email_rejected_def subscript_def re_match_pattern)
qed

lemma phone_rejected_eq:
  "phone_rejected d = Inr (\<exists>v. map_of d (py ''phone_number'') = Some v \<and> \<not> is_str v)"
  by (auto simp: phone_rejected_def dict_contains_def subscript_def)

lemma date_fromisoformat_ok:
  "(\<exists>dt. date_fromisoformat fromiso v = Inr dt) \<longleftrightarrow> (\<exists>s dt. v = JStr s \<and> fromiso s = Some dt)"
  by (cases v) (auto split: option.splits)

lemma date_fromisoformat_cases:
  "(\<exists>dt. date_fromisoformat fromiso v = Inr dt) \<or> date_fromisoformat fromiso v = Inl TypeError \<or>
   date_fromisoformat fromiso v = Inl ValueError"
  by (cases v) (simp_all split: option.splits)

lemma date_joined_check_eq:
  "date_joined_check fromiso d =
     Inr (\<forall>v. map_of d (py ''date_joined'') = Some v \<longrightarrow>
            (\<exists>s dt. v = JStr s \<and> fromiso s = Some dt))"
proof (cases "map_of d (py ''date_joined'')")
  case None
  then show ?thesis by (simp add: date_joined_check_def dict_contains_def)
next
  case (Some v)
  from date_fromisoformat_cases [of fromiso v] date_fromisoformat_ok [of fromiso v] Some
  show ?thesis
    by (auto simp: date_joined_check_def dict_contains_def subscript_def)
qed

lemma validate_account_data_eq:
  "validate_account_data tbl fromiso (JObj d) = Inr (run_valid tbl fromiso d)"
proof -
  let ?n = "\<exists>n. map_of d (py ''name'') = Some (JStr n)"
  let ?e = "\<exists>e. map_of d (py ''email'') = Some (JStr e) \<and> matches_pattern tbl e"
  let ?a = "\<exists>a. map_of d (py ''address'') = Some (JStr a)"
  let ?p = "\<exists>v. map_of d (py ''phone_number'') = Some v \<and> \<not> is_str v"
  have "validate_account_data tbl fromiso (JObj d) =
      (if \<not> ?n then Inr False else if \<not> ?e then Inr False else if \<not> ?a then Inr False
       else if ?p then Inr False else date_joined_check fromiso d)"
    by (auto simp: is_str_dict_get email_rejected_eq phone_rejected_eq split: bool.split)
  also have "\<dots> = Inr (run_valid tbl fromiso d)"
    unfolding run_valid_def date_joined_check_eq by auto
  finally show ?thesis .
qed

lemma spec_valid_run_valid:
  assumes "reads_iso_dates fromiso" and "spec_valid tbl d"
  shows "run_valid tbl fromiso d"
proof -
  have "\<exists>s dt. v = JStr s \<and> fromiso s = Some dt"
    if "\<exists>s. v = JStr s \<and> iso_date_string s" for v
    using that assms(1) unfolding iso_date_string_def reads_iso_dates_def by blast
  with assms(2) show ?thesis
    unfolding spec_valid_def run_valid_def by blast
qed

lemma run_valid_spec_valid:
  assumes "reads_only_iso_dates fromiso" and "run_valid tbl fromiso d"
  shows "spec_valid tbl d"
proof -
  have "\<exists>s. v = JStr s \<and> iso_date_string s"
    if "\<exists>s dt. v = JStr s \<and> fromiso s = Some dt" for v
    using that assms(1) unfolding iso_date_string_def reads_only_iso_dates_def by metis
  with assms(2) show ?thesis
    unfolding spec_valid_def run_valid_def by blast
qed

section \<open>Claims about the validator\<close>

text \<open>The facts that evaluate the validator on a concrete mapping.\<close>

lemma parse_digits_numeral:
  "parse_digits (numeral k) var [] = None"
  "parse_digits (numeral k) var (c # p) =
     (if is_digit c then parse_digits (pred_numeral k) (var * 10 + (c - 48)) p else None)"
  "parse_digits 1 var [] = None"
  "parse_digits 1 var (c # p) = (if is_digit c then Some (var * 10 + (c - 48), p) else None)"
  by (simp_all add: numeral_eq_Suc)

lemmas eval_defs = py_def dict_get_def subscript_def dict_contains_def email_rejected_def
  phone_rejected_def date_joined_check_def re_match_def pattern_def in_cset_def isalnum_def
  is_digit_def valid_date_def days_in_month_def is_leap_def fromisoformat_py310_def
  fromisoformat_py311_def parse_isoformat_date_py311_def parse_month_day_def
  parse_week_date_def separator_def parse_digits_numeral

text \<open>
  Claim C1, as stated, against the code on Python 3.11: a mapping whose \<open>date_joined\<close> is
  \<open>20240229\<close>, eight digits without separators, is accepted, although that string is
  not the \<open>YYYY-MM-DD\<close> form of any day.
\<close>

theorem validate_account_data_basic_date_counterexample:
  "validate_account_data ascii_only fromisoformat_py311
     (JObj [(py ''name'', JStr (py ''Ann'')), (py ''email'', JStr (py ''ann@example.com'')),
            (py ''address'', JStr (py ''1 Rd'')), (py ''date_joined'', JStr (py ''20240229''))])
     = Inr True \<and>
   \<not> spec_valid ascii_only
     [(py ''name'', JStr (py ''Ann'')), (py ''email'', JStr (py ''ann@example.com'')),
      (py ''address'', JStr (py ''1 Rd'')), (py ''date_joined'', JStr (py ''20240229''))]"
proof
  show "validate_account_data ascii_only fromisoformat_py311
     (JObj [(py ''name'', JStr (py ''Ann'')), (py ''email'', JStr (py ''ann@example.com'')),
            (py ''address'', JStr (py ''1 Rd'')), (py ''date_joined'', JStr (py ''20240229''))])
     = Inr True"
    by (simp add: eval_defs)
next
  let ?d = "[(py ''name'', JStr (py ''Ann'')), (py ''email'', JStr (py ''ann@example.com'')),
      (py ''address'', JStr (py ''1 Rd'')), (py ''date_joined'', JStr (py ''20240229''))]"
  show "\<not> spec_valid ascii_only ?d"
  proof
    assume "spec_valid ascii_only ?d"
    moreover have "map_of ?d (py ''date_joined'') = Some (JStr (py ''20240229''))"
      by (simp add: py_def)
    ultimately have "iso_date_string (py ''20240229'')"
      unfolding spec_valid_def by blast
    then have "length (py ''20240229'') = 10" by (rule iso_date_string_length)
    then show False by (simp add: py_def)
  qed
qed

text \<open>
  Claim C1, amended. On a mapping, \<open>validate_account_data\<close> returns \<open>True\<close> exactly when
  \<open>name\<close> is present and a string; \<open>email\<close> is present, a string, and matches the
  pattern; \<open>address\<close> is present and a string; \<open>phone_number\<close>, when present, is a string;
  and \<open>date_joined\<close>, when present, is a string that the interpreter's
  \<open>date.fromisoformat\<close> reads. Every \<open>YYYY-MM-DD\<close> form of a day of the calendar is such
  a string, so a mapping that satisfies the rules as first stated is accepted; and where
  \<open>date.fromisoformat\<close> reads nothing but those forms, as up to Python 3.10, the
  validator returns \<open>True\<close> exactly when the rules as first stated hold.
\<close>

theorem validate_account_data_iff_run_rules:
  "(validate_account_data tbl fromiso (JObj d) = Inr True \<longleftrightarrow> run_valid tbl fromiso d) \<and>
   (reads_iso_dates fromiso \<longrightarrow> spec_valid tbl d \<longrightarrow>
      validate_account_data tbl fromiso (JObj d) = Inr True) \<and>
   (reads_iso_dates fromiso \<and> reads_only_iso_dates fromiso \<longrightarrow>
      (validate_account_data tbl fromiso (JObj d) = Inr True \<longleftrightarrow> spec_valid tbl d))"
  unfolding validate_account_data_eq
  using spec_valid_run_valid [of fromiso tbl d] run_valid_spec_valid [of fromiso tbl d]
  by auto

theorem validate_account_data_iff_run_rules_witness:
  "validate_account_data (\<lambda>c. False) fromisoformat_py311
     (JObj [(py ''name'', JStr (py ''Ann'')), (py ''email'', JStr (py ''ann@example.com'')),
            (py ''address'', JStr (py ''1 Rd'')), (py ''phone_number'', JStr (py ''555'')),
            (py ''date_joined'', JStr (py ''2024-02-29''))]) = Inr True \<and>
   run_valid (\<lambda>c. False) fromisoformat_py311
     [(py ''name'', JStr (py ''Ann'')), (py ''email'', JStr (py ''ann@example.com'')),
      (py ''address'', JStr (py ''1 Rd'')), (py ''phone_number'', JStr (py ''555'')),
      (py ''date_joined'', JStr (py ''2024-02-29''))] \<and>
   reads_iso_dates fromisoformat_py310 \<and> reads_only_iso_dates fromisoformat_py310 \<and>
   validate_account_data (\<lambda>c. False) fromisoformat_py310
     (JObj [(py ''name'', JStr (py ''Ann'')), (py ''email'', JStr (py ''ann@example.com'')),
            (py ''address'', JStr (py ''1 Rd'')), (py ''phone_number'', JStr (py ''555'')),
            (py ''date_joined'', JStr (py ''2024-02-29''))]) = Inr True \<and>
   spec_valid (\<lambda>c. False)
     [(py ''name'', JStr (py ''Ann'')), (py ''email'', JStr (py ''ann@example.com'')),
      (py ''address'', JStr (py ''1 Rd'')), (py ''phone_number'', JStr (py ''555'')),
      (py ''date_joined'', JStr (py ''2024-02-29''))]"
proof -
  let ?d = "[(py ''name'', JStr (py ''Ann'')), (py ''email'', JStr (py ''ann@example.com'')),
      (py ''address'', JStr (py ''1 Rd'')), (py ''phone_number'', JStr (py ''555'')),
      (py ''date_joined'', JStr (py ''2024-02-29''))]"
  have a: "validate_account_data (\<lambda>c. False) fromisoformat_py311 (JObj ?d) = Inr True"
    by (simp add: eval_defs)
  have b: "validate_account_data (\<lambda>c. False) fromisoformat_py310 (JObj ?d) = Inr True"
    by (simp add: eval_defs)
  from validate_account_data_iff_run_rules [of "\<lambda>c. False" fromisoformat_py311 ?d] a
  have c: "run_valid (\<lambda>c. False) fromisoformat_py311 ?d" by blast
  from validate_account_data_iff_run_rules [of "\<lambda>c. False" fromisoformat_py310 ?d] b
    py310_reads_iso_dates py310_reads_only_iso_dates
  have e: "spec_valid (\<lambda>c. False) ?d" by blast
  from a b c e py310_reads_iso_dates py310_reads_only_iso_dates show ?thesis by blast
qed

text \<open>
  Claim C2. On a mapping, \<open>validate_account_data\<close> raises nothing and returns a boolean;
  a missing or non-string \<open>name\<close>, \<open>email\<close> or \<open>address\<close>, a non-string
  \<open>phone_number\<close>, and a \<open>date_joined\<close> that \<open>date.fromisoformat\<close> rejects (a value that
  is no string, or a string it does not read) each give \<open>False\<close>.
\<close>

theorem validate_account_data_total:
  "(\<exists>b. validate_account_data tbl fromiso (JObj d) = Inr b) \<and>
   ((\<forall>n. map_of d (py ''name'') \<noteq> Some (JStr n)) \<longrightarrow>
      validate_account_data tbl fromiso (JObj d) = Inr False) \<and>
   ((\<forall>e. map_of d (py ''email'') \<noteq> Some (JStr e)) \<longrightarrow>
      validate_account_data tbl fromiso (JObj d) = Inr False) \<and>
   ((\<forall>a. map_of d (py ''address'') \<noteq> Some (JStr a)) \<longrightarrow>
      validate_account_data tbl fromiso (JObj d) = Inr False) \<and>
   ((\<exists>v. map_of d (py ''phone_number'') = Some v \<and> \<not> is_str v) \<longrightarrow>
      validate_account_data tbl fromiso (JObj d) = Inr False) \<and>
   ((\<exists>v. map_of d (py ''date_joined'') = Some v \<and>
         (\<forall>dt. date_fromisoformat fromiso v \<noteq> Inr dt)) \<longrightarrow>
      validate_account_data tbl fromiso (JObj d) = Inr False)"
proof -
  have "(\<exists>v. map_of d (py ''date_joined'') = Some v \<and>
          (\<forall>dt. date_fromisoformat fromiso v \<noteq> Inr dt)) \<longrightarrow>
      \<not> run_valid tbl fromiso d"
    using date_fromisoformat_ok [of fromiso] unfolding run_valid_def by blast
  moreover have "(\<forall>n. map_of d (py ''name'') \<noteq> Some (JStr n)) \<longrightarrow> \<not> run_valid tbl fromiso d"
    "(\<forall>e. map_of d (py ''email'') \<noteq> Some (JStr e)) \<longrightarrow> \<not> run_valid tbl fromiso d"
    "(\<forall>a. map_of d (py ''address'') \<noteq> Some (JStr a)) \<longrightarrow> \<not> run_valid tbl fromiso d"
    "(\<exists>v. map_of d (py ''phone_number'') = Some v \<and> \<not> is_str v) \<longrightarrow> \<not> run_valid tbl fromiso d"
    unfolding run_valid_def by blast+
  ultimately show ?thesis
    unfolding validate_account_data_eq by simp
qed

theorem validate_account_data_total_witness:
  "map_of [(py ''phone_number'', JInt 5), (py ''date_joined'', JInt 7)] (py ''name'') = None \<and>
   map_of [(py ''phone_number'', JInt 5), (py ''date_joined'', JInt 7)] (py ''phone_number'')
     = Some (JInt 5) \<and> \<not> is_str (JInt 5) \<and>
   map_of [(py ''phone_number'', JInt 5), (py ''date_joined'', JInt 7)] (py ''date_joined'')
     = Some (JInt 7) \<and> date_fromisoformat fromisoformat_py311 (JInt 7) = Inl TypeError \<and>
   validate_account_data (\<lambda>c. False) fromisoformat_py311
     (JObj [(py ''phone_number'', JInt 5), (py ''date_joined'', JInt 7)]) = Inr False"
proof -
  let ?d = "[(py ''phone_number'', JInt 5), (py ''date_joined'', JInt 7)]"
  have n: "\<forall>n. map_of ?d (py ''name'') \<noteq> Some (JStr n)"
    by (simp add: py_def)
  from validate_account_data_total [of "\<lambda>c. False" fromisoformat_py311 ?d] n
  have "validate_account_data (\<lambda>c. False) fromisoformat_py311 (JObj ?d) = Inr False" by blast
  then show ?thesis by (simp add: py_def)
qed

text \<open>
  Claim C10. A mapping whose \<open>name\<close>, \<open>address\<close> or \<open>phone_number\<close> is the empty string
  is accepted when the other rules hold: \<open>name\<close> and \<open>address\<close> are strings,
  \<open>phone_number\<close> is absent or a string, \<open>email\<close> is a string that \<open>validate_email\<close>
  accepts, and \<open>date_joined\<close> is absent or parses.
\<close>

theorem empty_strings_accepted:
  assumes "map_of d (py ''name'') = Some (JStr n)"
    and "map_of d (py ''address'') = Some (JStr a)"
    and "map_of d (py ''phone_number'') = None \<or> map_of d (py ''phone_number'') = Some (JStr p)"
    and "n = [] \<or> a = [] \<or> map_of d (py ''phone_number'') = Some (JStr [])"
    and "map_of d (py ''email'') = Some (JStr e)" and "validate_email tbl (JStr e) = Inr True"
    and "map_of d (py ''date_joined'') = None \<or>
         (\<exists>v dt. map_of d (py ''date_joined'') = Some v \<and> date_fromisoformat fromiso v = Inr dt)"
  shows "validate_account_data tbl fromiso (JObj d) = Inr True"
proof -
  from assms(6) have "matches_pattern tbl e" by (simp add: re_match_pattern)
  moreover from assms(7) have "\<forall>v. map_of d (py ''date_joined'') = Some v \<longrightarrow>
      (\<exists>s dt. v = JStr s \<and> fromiso s = Some dt)"
    using date_fromisoformat_ok [of fromiso] by auto
  moreover from assms(3) have "\<forall>v. map_of d (py ''phone_number'') = Some v \<longrightarrow> is_str v"
    by auto
  ultimately have "run_valid tbl fromiso d"
    unfolding run_valid_def using assms(1,2,5) by blast
  then show ?thesis unfolding validate_account_data_eq by simp
qed

theorem empty_strings_accepted_witness:
  "validate_account_data (\<lambda>c. False) fromisoformat_py311
     (JObj [(py ''name'', JStr []), (py ''email'', JStr (py ''a@b.co'')),
            (py ''address'', JStr []), (py ''phone_number'', JStr [])]) = Inr True"
proof -
  let ?d = "[(py ''name'', JStr []), (py ''email'', JStr (py ''a@b.co'')),
            (py ''address'', JStr []), (py ''phone_number'', JStr [])]"
  have "map_of ?d (py ''name'') = Some (JStr [])" "map_of ?d (py ''address'') = Some (JStr [])"
    "map_of ?d (py ''phone_number'') = Some (JStr [])" "map_of ?d (py ''date_joined'') = None"
    "map_of ?d (py ''email'') = Some (JStr (py ''a@b.co''))"
    "validate_email (\<lambda>c. False) (JStr (py ''a@b.co'')) = Inr True"
    by (simp_all add: eval_defs)
  then show ?thesis
    using empty_strings_accepted [of ?d "[]" "[]" "[]" "py ''a@b.co''" "\<lambda>c. False"
        fromisoformat_py311] by blast
qed

section \<open>Deserialization of a valid payload\<close>

lemma deserialize_of_valid:
  assumes "run_valid tbl fromiso d"
  shows "deserialize tbl fromiso today a (JObj d) = Inr (overwritten fromiso today a d)"
proof -
  from assms obtain n e ad where n: "map_of d (py ''name'') = Some (JStr n)"
    and e: "map_of d (py ''email'') = Some (JStr e)" "matches_pattern tbl e"
    and ad: "map_of d (py ''address'') = Some (JStr ad)"
    and p: "\<forall>v. map_of d (py ''phone_number'') = Some v \<longrightarrow> is_str v"
    and dj: "\<forall>v. map_of d (py ''date_joined'') = Some v \<longrightarrow>
               (\<exists>s dt. v = JStr s \<and> fromiso s = Some dt)"
    unfolding run_valid_def by blast
  have rn: "required_str d (py ''name'') = Inr n" "str_field d (py ''name'') = Some n"
    using n by (simp_all add: required_str_def str_field_def)
  have re: "required_str d (py ''email'') = Inr e" "str_field d (py ''email'') = Some e"
    using e by (simp_all add: required_str_def str_field_def)
  have ra: "required_str d (py ''address'') = Inr ad" "str_field d (py ''address'') = Some ad"
    using ad by (simp_all add: required_str_def str_field_def)
  have rp: "optional_str d (py ''phone_number'') = Inr (str_field d (py ''phone_number''))"
    using p by (auto simp: optional_str_def str_field_def is_str_iff split: option.splits)
  have "\<exists>dt. optional_date fromiso today d (py ''date_joined'') = Inr dt \<and>
          date_field fromiso today d = Some dt"
  proof (cases "map_of d (py ''date_joined'')")
    case None
    then show ?thesis by (simp add: optional_date_def date_field_def)
  next
    case (Some v)
    with dj date_fromisoformat_ok [of fromiso v] obtain dt
      where "date_fromisoformat fromiso v = Inr dt"
      by blast
    with Some show ?thesis by (simp add: optional_date_def date_field_def)
  qed
  then obtain dt where rd: "optional_date fromiso today d (py ''date_joined'') = Inr dt"
    "date_field fromiso today d = Some dt" by blast
  from e(2) have m: "re_match tbl pattern e" by (simp add: re_match_pattern)
  show ?thesis
    by (simp add: on_success_def rn re ra rp rd m overwritten_def)
qed

lemma overwritten_fields:
  assumes "run_valid tbl fromiso d"
  shows "acc_id (overwritten fromiso today a d) = acc_id a"
    and "\<exists>n. name (overwritten fromiso today a d) = Some n \<and>
           map_of d (py ''name'') = Some (JStr n)"
    and "\<exists>e. email (overwritten fromiso today a d) = Some e \<and>
           map_of d (py ''email'') = Some (JStr e)"
    and "\<exists>ad. address (overwritten fromiso today a d) = Some ad \<and>
           map_of d (py ''address'') = Some (JStr ad)"
    and "map_of d (py ''phone_number'') = None \<longrightarrow>
           phone_number (overwritten fromiso today a d) = None"
    and "\<forall>v. map_of d (py ''phone_number'') = Some v \<longrightarrow>
           (\<exists>p. v = JStr p \<and> phone_number (overwritten fromiso today a d) = Some p)"
    and "map_of d (py ''date_joined'') = None \<longrightarrow>
           date_joined (overwritten fromiso today a d) = Some today"
    and "\<forall>v. map_of d (py ''date_joined'') = Some v \<longrightarrow>
           (\<exists>s dt. v = JStr s \<and> fromiso s = Some dt \<and>
              date_joined (overwritten fromiso today a d) = Some dt)"
proof -
  from assms obtain n e ad where n: "map_of d (py ''name'') = Some (JStr n)"
    and e: "map_of d (py ''email'') = Some (JStr e)"
    and ad: "map_of d (py ''address'') = Some (JStr ad)"
    and p: "\<forall>v. map_of d (py ''phone_number'') = Some v \<longrightarrow> is_str v"
    and dj: "\<forall>v. map_of d (py ''date_joined'') = Some v \<longrightarrow>
               (\<exists>s dt. v = JStr s \<and> fromiso s = Some dt)"
    unfolding run_valid_def by blast
  show "acc_id (overwritten fromiso today a d) = acc_id a" by (simp add: overwritten_def)
  show "\<exists>n. name (overwritten fromiso today a d) = Some n \<and>
           map_of d (py ''name'') = Some (JStr n)"
    using n by (simp add: overwritten_def str_field_def)
  show "\<exists>e. email (overwritten fromiso today a d) = Some e \<and>
           map_of d (py ''email'') = Some (JStr e)"
    using e by (simp add: overwritten_def str_field_def)
  show "\<exists>ad. address (overwritten fromiso today a d) = Some ad \<and>
           map_of d (py ''address'') = Some (JStr ad)"
    using ad by (simp add: overwritten_def str_field_def)
  show "map_of d (py ''phone_number'') = None \<longrightarrow>
           phone_number (overwritten fromiso today a d) = None"
    by (simp add: overwritten_def str_field_def)
  show "\<forall>v. map_of d (py ''phone_number'') = Some v \<longrightarrow>
           (\<exists>p. v = JStr p \<and> phone_number (overwritten fromiso today a d) = Some p)"
    using p by (auto simp: overwritten_def str_field_def is_str_iff)
  show "map_of d (py ''date_joined'') = None \<longrightarrow>
           date_joined (overwritten fromiso today a d) = Some today"
    by (simp add: overwritten_def date_field_def)
  show "\<forall>v. map_of d (py ''date_joined'') = Some v \<longrightarrow>
           (\<exists>s dt. v = JStr s \<and> fromiso s = Some dt \<and>
              date_joined (overwritten fromiso today a d) = Some dt)"
  proof (intro allI impI)
    fix v assume v: "map_of d (py ''date_joined'') = Some v"
    with dj obtain s dt where s: "v = JStr s" "fromiso s = Some dt" by blast
    with v show "\<exists>s dt. v = JStr s \<and> fromiso s = Some dt \<and>
              date_joined (overwritten fromiso today a d) = Some dt"
      by (simp add: overwritten_def date_field_def)
  qed
qed

lemma overwritten_iso_date:
  assumes "run_valid tbl fromiso d" and "reads_iso_dates fromiso"
    and "map_of d (py ''date_joined'') = Some (JStr s)" and "iso_date_string s"
  shows "\<exists>dt. date_joined (overwritten fromiso today a d) = Some dt \<and> isoformat dt = s"
proof -
  from assms(4) obtain dt where dt: "valid_date dt" "s = isoformat dt"
    unfolding iso_date_string_def by blast
  with assms(2) have "fromiso s = Some dt" unfolding reads_iso_dates_def by blast
  with assms(3) dt(2) show ?thesis
    by (simp add: overwritten_def date_field_def)
qed

lemma overwritten_only_iso_date:
  assumes "run_valid tbl fromiso d" and "reads_only_iso_dates fromiso"
    and "map_of d (py ''date_joined'') = Some v"
  shows "\<exists>dt. date_joined (overwritten fromiso today a d) = Some dt \<and> v = JStr (isoformat dt)"
proof -
  from overwritten_fields(8) [OF assms(1), of today a] assms(3)
  obtain s dt where "v = JStr s" "fromiso s = Some dt"
    "date_joined (overwritten fromiso today a d) = Some dt" by blast
  moreover from this(2) assms(2) have "isoformat dt = s"
    unfolding reads_only_iso_dates_def by blast
  ultimately show ?thesis by blast
qed

section \<open>Inputs at the edge of the rules\<close>

text \<open>
  Python 3.11 reads a date without separators, ignores what follows it in a string of
  ten bytes, and reads an ISO week date; Python 3.10 reads none of these.
\<close>

lemma py311_reads_other_forms:
  "fromisoformat_py311 (py ''20240229'') = Some \<lparr>year = 2024, month = 2, day = 29\<rparr>"
  "fromisoformat_py311 (py ''20240229xx'') = Some \<lparr>year = 2024, month = 2, day = 29\<rparr>"
  "fromisoformat_py311 (py ''2024-W09-4'') = Some \<lparr>year = 2024, month = 2, day = 29\<rparr>"
  "fromisoformat_py310 (py ''20240229'') = None"
  "fromisoformat_py310 (py ''2024-W09-4'') = None"
  by (simp_all add: eval_defs iso_to_ymd_def weekday_def ymd_to_ord_def days_before_year_def
      days_before_month_def iso_week1_monday_def ord_to_ymd_def Let_def)

lemma py311_not_only_iso_dates: "\<not> reads_only_iso_dates fromisoformat_py311"
proof
  assume "reads_only_iso_dates fromisoformat_py311"
  with py311_reads_other_forms(1)
  have "isoformat \<lparr>year = 2024, month = 2, day = 29\<rparr> = py ''20240229''"
    unfolding reads_only_iso_dates_def by blast
  then show False by (simp add: isoformat_def py_def)
qed

text \<open>
  The \<open>$\<close> of the pattern lets an address end in a newline.
\<close>

lemma validate_email_final_newline:
  "validate_email (\<lambda>c. False) (JStr (py ''a@b.co'' @ [10])) = Inr True"
  by (simp add: py_def re_match_def pattern_def in_cset_def isalnum_def)

text \<open>
  A JSON body that is not an object has no method \<open>get\<close>: the validator raises, and
  \<open>update_account\<close> ends with that exception and an untouched store.
\<close>

lemma update_account_body_not_object:
  assumes "rows st account_id = Some a" and "get_json req = Inr (JArr xs)"
  shows "update_account tbl fromiso today account_id req st = (Inl AttributeError, st)"
  using assms by (simp add: update_account_def query_get_def)

section \<open>Claims about the handlers\<close>

text \<open>The definitions that evaluate a handler on a concrete request and store.\<close>

lemmas status_defs = HTTP_200_OK_def HTTP_201_CREATED_def HTTP_204_NO_CONTENT_def
  HTTP_400_BAD_REQUEST_def HTTP_404_NOT_FOUND_def HTTP_415_UNSUPPORTED_MEDIA_TYPE_def

lemmas handler_defs = create_accounts_def get_accounts_def update_account_def delete_account_def
  check_content_type_def create_def find_def query_get_def commit_update_def commit_delete_def
  serialize_def opt_json_def on_success_def required_str_def optional_str_def optional_date_def
  Account_def

text \<open>
  A JSON object that fails the rules is answered 400, and the store is left as it was.
\<close>

lemma update_account_invalid_object:
  assumes "rows st account_id = Some a"
    and "get_json req = Inr account_data"
    and "validate_account_data tbl fromiso account_data = Inr False"
  shows "http_status (fst (update_account tbl fromiso today account_id req st)) = 400 \<and>
         snd (update_account tbl fromiso today account_id req st) = st \<and>
         rows (snd (update_account tbl fromiso today account_id req st)) account_id = Some a"
  using assms by (simp add: update_account_def query_get_def status_defs)

text \<open>
  Claim C3. A \<open>POST /accounts\<close> request whose \<open>Content-Type\<close> header is not
  \<open>application/json\<close>, the absent header included, is answered 415 and leaves the store
  as it was: no account is created.
\<close>

theorem create_accounts_wrong_content_type:
  assumes "content_type_header req \<noteq> Some (py ''application/json'')"
  shows "http_status (fst (create_accounts tbl fromiso today req st)) = 415 \<and>
         snd (create_accounts tbl fromiso today req st) = st"
proof -
  from assms have "check_content_type req (py ''application/json'') =
      Inl (HTTPException HTTP_415_UNSUPPORTED_MEDIA_TYPE
             (py ''Content-Type must be '' @ py ''application/json''))"
    by (simp add: check_content_type_def)
  then show ?thesis
    by (simp add: create_accounts_def status_defs)
qed

theorem create_accounts_wrong_content_type_witness:
  "http_status (fst (create_accounts (\<lambda>c. False) fromisoformat_py311 \<lparr>year = 2024, month = 1, day = 2\<rparr>
       \<lparr>content_type_header = Some (py ''test/html''),
        get_json = Inr (JObj [(py ''name'', JStr (py ''Ann'')),
          (py ''email'', JStr (py ''ann@example.com'')), (py ''address'', JStr (py ''1 Rd''))])\<rparr>
       \<lparr>rows = Map.empty, next_id = 1\<rparr>)) = 415 \<and>
   http_status (fst (create_accounts (\<lambda>c. False) fromisoformat_py311 \<lparr>year = 2024, month = 1, day = 2\<rparr>
       \<lparr>content_type_header = None, get_json = Inr (JObj [])\<rparr>
       \<lparr>rows = Map.empty, next_id = 1\<rparr>)) = 415"
proof -
  have a: "content_type_header \<lparr>content_type_header = Some (py ''test/html''),
        get_json = Inr (JObj [(py ''name'', JStr (py ''Ann'')),
          (py ''email'', JStr (py ''ann@example.com'')), (py ''address'', JStr (py ''1 Rd''))])\<rparr>
      \<noteq> Some (py ''application/json'')"
    by (simp add: py_def)
  have b: "content_type_header \<lparr>content_type_header = None, get_json = Inr (JObj [])\<rparr>
      \<noteq> Some (py ''application/json'')"
    by simp
  from create_accounts_wrong_content_type [OF a] create_accounts_wrong_content_type [OF b]
  show ?thesis by blast
qed

text \<open>
  Claim C4. A \<open>POST /accounts\<close> request with \<open>Content-Type\<close> \<open>application/json\<close> whose
  body deserializes is answered 201; the body of the response is the serialization of
  the account that was created and stored, its \<open>id\<close> the integer the store generated,
  and the response has a \<open>Location\<close> header.
\<close>

theorem create_accounts_created:
  assumes "content_type_header req = Some (py ''application/json'')"
    and "get_json req = Inr data"
    and "deserialize tbl fromiso today Account data = Inr a"
  shows "\<exists>resp a' obj.
           fst (create_accounts tbl fromiso today req st) = Inr resp \<and>
           status_code resp = 201 \<and>
           body resp = Json (serialize a') \<and>
           serialize a' = JObj obj \<and>
           map_of obj (py ''id'') = Some (JInt (next_id st)) \<and>
           map_of (headers resp) (py ''Location'') \<noteq> None \<and>
           a' = a\<lparr>acc_id := Some (next_id st)\<rparr> \<and>
           rows (snd (create_accounts tbl fromiso today req st)) (next_id st) = Some a'"
proof -
  from assms(1) have c: "check_content_type req (py ''application/json'') = Inr ()"
    by (simp add: check_content_type_def py_def)
  let ?a = "a\<lparr>acc_id := Some (next_id st)\<rparr>"
  have run: "create_accounts tbl fromiso today req st =
     (Inr \<lparr>body = Json (serialize ?a), status_code = 201,
           headers = [(py ''Location'', py ''/'')]\<rparr>,
      st\<lparr>rows := (rows st)(next_id st \<mapsto> ?a), next_id := next_id st + 1\<rparr>)"
    unfolding create_accounts_def
    by (simp add: c assms(2,3) create_def Let_def status_defs del: deserialize.simps)
  have "map_of [(py ''id'', opt_json JInt (acc_id ?a)),
           (py ''name'', opt_json JStr (name ?a)),
           (py ''email'', opt_json JStr (email ?a)),
           (py ''address'', opt_json JStr (address ?a)),
           (py ''phone_number'', opt_json JStr (phone_number ?a)),
           (py ''date_joined'', opt_json (\<lambda>dt. JStr (isoformat dt)) (date_joined ?a))]
          (py ''id'') = Some (JInt (next_id st))"
    by (simp add: opt_json_def)
  then show ?thesis
    unfolding run fst_conv snd_conv
    by (simp add: serialize_def)
qed

theorem create_accounts_created_witness:
  "\<exists>resp. fst (create_accounts (\<lambda>c. False) fromisoformat_py311 \<lparr>year = 2024, month = 1, day = 2\<rparr>
            \<lparr>content_type_header = Some (py ''application/json''),
             get_json = Inr (JObj [(py ''name'', JStr (py ''Ann'')),
               (py ''email'', JStr (py ''ann@example.com'')),
               (py ''address'', JStr (py ''1 Rd''))])\<rparr>
            \<lparr>rows = Map.empty, next_id = 1\<rparr>) = Inr resp \<and>
          status_code resp = 201 \<and> body resp = Json (serialize ann) \<and>
          map_of (headers resp) (py ''Location'') \<noteq> None"
proof -
  let ?d = "[(py ''name'', JStr (py ''Ann'')), (py ''email'', JStr (py ''ann@example.com'')),
             (py ''address'', JStr (py ''1 Rd''))]"
  let ?req = "\<lparr>content_type_header = Some (py ''application/json''), get_json = Inr (JObj ?d)\<rparr>"
  let ?st = "\<lparr>rows = Map.empty, next_id = 1\<rparr> :: store"
  let ?a = "\<lparr>acc_id = None, name = Some (py ''Ann''), email = Some (py ''ann@example.com''),
          address = Some (py ''1 Rd''), phone_number = None,
          date_joined = Some \<lparr>year = 2024, month = 1, day = 2\<rparr>\<rparr>"
  have 1: "content_type_header ?req = Some (py ''application/json'')" by simp
  have 2: "get_json ?req = Inr (JObj ?d)" by simp
  have 3: "deserialize (\<lambda>c. False) fromisoformat_py311 \<lparr>year = 2024, month = 1, day = 2\<rparr> Account (JObj ?d) = Inr ?a"
    by (simp add: handler_defs eval_defs)
  have 4: "?a\<lparr>acc_id := Some (next_id ?st)\<rparr> = ann" by (simp add: ann_def)
  from create_accounts_created [OF 1 2 3, of ?st] 4 show ?thesis by auto
qed

text \<open>
  Claim C5. A \<open>PUT /accounts/<id>\<close> request for a stored account, with a body that passes
  validation, is answered 200 with the serialization of the updated account, which is
  what the store then holds under the same key. The update replaces: \<open>name\<close>, \<open>email\<close>
  and \<open>address\<close> are the submitted strings, \<open>phone_number\<close> is the submitted string
  (unset when not submitted), \<open>date_joined\<close> is the date that the submitted string is
  read as (the current date when not submitted), and \<open>id\<close> is the one the record had.
  A submitted \<open>YYYY-MM-DD\<close> form of a day is stored as that day; where
  \<open>date.fromisoformat\<close> reads nothing else, every stored date prints as it was
  submitted.
\<close>

theorem update_account_replaces:
  assumes "rows st account_id = Some a"
    and "get_json req = Inr (JObj d)"
    and "validate_account_data tbl fromiso (JObj d) = Inr True"
  shows "\<exists>a'. fst (update_account tbl fromiso today account_id req st) =
             Inr \<lparr>body = Json (serialize a'), status_code = 200, headers = []\<rparr> \<and>
           snd (update_account tbl fromiso today account_id req st) =
             st\<lparr>rows := (rows st)(account_id \<mapsto> a')\<rparr> \<and>
           acc_id a' = acc_id a \<and>
           (\<exists>n. name a' = Some n \<and> map_of d (py ''name'') = Some (JStr n)) \<and>
           (\<exists>e. email a' = Some e \<and> map_of d (py ''email'') = Some (JStr e)) \<and>
           (\<exists>ad. address a' = Some ad \<and> map_of d (py ''address'') = Some (JStr ad)) \<and>
           (map_of d (py ''phone_number'') = None \<longrightarrow> phone_number a' = None) \<and>
           (\<forall>v. map_of d (py ''phone_number'') = Some v \<longrightarrow>
              (\<exists>p. v = JStr p \<and> phone_number a' = Some p)) \<and>
           (map_of d (py ''date_joined'') = None \<longrightarrow> date_joined a' = Some today) \<and>
           (\<forall>v. map_of d (py ''date_joined'') = Some v \<longrightarrow>
              (\<exists>s dt. v = JStr s \<and> fromiso s = Some dt \<and> date_joined a' = Some dt)) \<and>
           (reads_iso_dates fromiso \<longrightarrow>
              (\<forall>s. map_of d (py ''date_joined'') = Some (JStr s) \<and> iso_date_string s \<longrightarrow>
                 (\<exists>dt. date_joined a' = Some dt \<and> isoformat dt = s))) \<and>
           (reads_only_iso_dates fromiso \<longrightarrow>
              (\<forall>v. map_of d (py ''date_joined'') = Some v \<longrightarrow>
                 (\<exists>dt. date_joined a' = Some dt \<and> v = JStr (isoformat dt))))"
proof -
  from assms(3) have v: "run_valid tbl fromiso d" unfolding validate_account_data_eq by simp
  let ?a = "overwritten fromiso today a d"
  have run: "update_account tbl fromiso today account_id req st =
      (Inr \<lparr>body = Json (serialize ?a), status_code = 200, headers = []\<rparr>,
       st\<lparr>rows := (rows st)(account_id \<mapsto> ?a)\<rparr>)"
    unfolding update_account_def
    by (simp add: assms query_get_def deserialize_of_valid [OF v] commit_update_def status_defs
        del: validate_account_data.simps deserialize.simps)
  have iso: "reads_iso_dates fromiso \<longrightarrow>
      (\<forall>s. map_of d (py ''date_joined'') = Some (JStr s) \<and> iso_date_string s \<longrightarrow>
         (\<exists>dt. date_joined ?a = Some dt \<and> isoformat dt = s))"
    using overwritten_iso_date [OF v, of _ today a] by blast
  have only: "reads_only_iso_dates fromiso \<longrightarrow>
      (\<forall>v. map_of d (py ''date_joined'') = Some v \<longrightarrow>
         (\<exists>dt. date_joined ?a = Some dt \<and> v = JStr (isoformat dt)))"
    using overwritten_only_iso_date [OF v, of _ today a] by blast
  show ?thesis
    apply (rule exI [of _ ?a])
    unfolding run fst_conv snd_conv
    using overwritten_fields [OF v, of today a] iso only by blast
qed

theorem update_account_replaces_witness:
  "\<exists>a'. fst (update_account (\<lambda>c. False) fromisoformat_py311 \<lparr>year = 2024, month = 1, day = 2\<rparr> 1
            \<lparr>content_type_header = Some (py ''application/json''),
             get_json = Inr (JObj [(py ''name'', JStr (py ''Updated Account Name'')),
               (py ''email'', JStr (py ''updated.email@example.com'')),
               (py ''address'', JStr (py ''123 Updated St'')),
               (py ''phone_number'', JStr (py ''1234567890'')),
               (py ''date_joined'', JStr (py ''2022-12-31''))])\<rparr>
            \<lparr>rows = [1 \<mapsto> ann], next_id = 2\<rparr>) =
          Inr \<lparr>body = Json (serialize a'), status_code = 200, headers = []\<rparr> \<and>
        acc_id a' = Some 1 \<and> name a' = Some (py ''Updated Account Name'') \<and>
        phone_number a' = Some (py ''1234567890'')"
proof -
  let ?d = "[(py ''name'', JStr (py ''Updated Account Name'')),
               (py ''email'', JStr (py ''updated.email@example.com'')),
               (py ''address'', JStr (py ''123 Updated St'')),
               (py ''phone_number'', JStr (py ''1234567890'')),
               (py ''date_joined'', JStr (py ''2022-12-31''))]"
  let ?req = "\<lparr>content_type_header = Some (py ''application/json''), get_json = Inr (JObj ?d)\<rparr>"
  let ?st = "\<lparr>rows = [1 \<mapsto> ann], next_id = 2\<rparr>"
  have 1: "rows ?st (1::int) = Some ann" by simp
  have 2: "get_json ?req = Inr (JObj ?d)" by simp
  have 3: "validate_account_data (\<lambda>c. False) fromisoformat_py311 (JObj ?d) = Inr True"
    by (simp add: eval_defs)
  have 4: "map_of ?d (py ''name'') = Some (JStr (py ''Updated Account Name''))"
    "map_of ?d (py ''phone_number'') = Some (JStr (py ''1234567890''))"
    by (simp_all add: py_def)
  have 5: "acc_id ann = Some 1" by (simp add: ann_def)
  from update_account_replaces [OF 1 2 3, of "\<lparr>year = 2024, month = 1, day = 2\<rparr>"]
  obtain a' where a: "fst (update_account (\<lambda>c. False) fromisoformat_py311 \<lparr>year = 2024, month = 1, day = 2\<rparr> 1 ?req ?st) =
             Inr \<lparr>body = Json (serialize a'), status_code = 200, headers = []\<rparr>"
     "acc_id a' = acc_id ann"
     "\<exists>n. name a' = Some n \<and> map_of ?d (py ''name'') = Some (JStr n)"
     "\<forall>v. map_of ?d (py ''phone_number'') = Some v \<longrightarrow>
              (\<exists>p. v = JStr p \<and> phone_number a' = Some p)"
    by blast
  from a(3) 4(1) have n: "name a' = Some (py ''Updated Account Name'')" by auto
  from a(4) 4(2) have p: "phone_number a' = Some (py ''1234567890'')" by auto
  from a(1,2) 5 n p show ?thesis by auto
qed

text \<open>
  Claim C6, at an input where the code departs from it. A \<open>PUT /accounts/1\<close> for a stored
  account whose body is the JSON array \<open>[]\<close>, or \<open>null\<close>, is not answered 400:
  \<open>validate_account_data\<close> calls \<open>get\<close> on the body, which raises \<open>AttributeError\<close>, and the
  request ends as an internal error, 500. The store is left as it was.
\<close>

theorem update_account_body_not_object_500:
  "update_account (\<lambda>c. False) fromisoformat_py311 \<lparr>year = 2024, month = 1, day = 2\<rparr> 1
       \<lparr>content_type_header = Some (py ''application/json''), get_json = Inr (JArr [])\<rparr>
       \<lparr>rows = [1 \<mapsto> ann], next_id = 2\<rparr> =
     (Inl AttributeError, \<lparr>rows = [1 \<mapsto> ann], next_id = 2\<rparr>) \<and>
   http_status (Inl AttributeError) = 500 \<and>
   http_status (fst (update_account (\<lambda>c. False) fromisoformat_py311
       \<lparr>year = 2024, month = 1, day = 2\<rparr> 1
       \<lparr>content_type_header = Some (py ''application/json''), get_json = Inr JNull\<rparr>
       \<lparr>rows = [1 \<mapsto> ann], next_id = 2\<rparr>)) = 500"
  by (simp add: update_account_def query_get_def)

text \<open>
  Claim C7. For an id that is not in the store, \<open>GET /accounts/<id>\<close> and
  \<open>DELETE /accounts/<id>\<close> are answered 404. \<open>DELETE\<close> of a stored account is answered
  204 with an empty body and removes that record and no other, so that a second
  \<open>DELETE\<close> of the same id is answered 404.
\<close>

theorem not_found_and_delete:
  "(rows st account_id = None \<longrightarrow>
      http_status (get_accounts account_id st) = 404 \<and>
      http_status (fst (delete_account account_id st)) = 404 \<and>
      snd (delete_account account_id st) = st) \<and>
   (rows st account_id \<noteq> None \<longrightarrow>
      fst (delete_account account_id st) =
        Inr \<lparr>body = Text [], status_code = 204, headers = []\<rparr> \<and>
      rows (snd (delete_account account_id st)) account_id = None \<and>
      (\<forall>j. j \<noteq> account_id \<longrightarrow> rows (snd (delete_account account_id st)) j = rows st j) \<and>
      http_status (fst (delete_account account_id (snd (delete_account account_id st)))) = 404)"
  by (auto simp: get_accounts_def delete_account_def find_def query_get_def commit_delete_def
      status_defs)

theorem not_found_and_delete_witness:
  "http_status (get_accounts 0 \<lparr>rows = [1 \<mapsto> ann], next_id = 2\<rparr>) = 404 \<and>
   http_status (fst (delete_account 9999 \<lparr>rows = [1 \<mapsto> ann], next_id = 2\<rparr>)) = 404 \<and>
   fst (delete_account 1 \<lparr>rows = [1 \<mapsto> ann], next_id = 2\<rparr>) =
     Inr \<lparr>body = Text [], status_code = 204, headers = []\<rparr> \<and>
   http_status (fst (delete_account 1
     (snd (delete_account 1 \<lparr>rows = [1 \<mapsto> ann], next_id = 2\<rparr>)))) = 404"
proof -
  let ?st = "\<lparr>rows = [1 \<mapsto> ann], next_id = 2\<rparr>"
  have a: "rows ?st 0 = None" "rows ?st 9999 = None" "rows ?st 1 \<noteq> None" by simp_all
  from not_found_and_delete [of ?st 0] not_found_and_delete [of ?st 9999]
    not_found_and_delete [of ?st 1] a
  show ?thesis by blast
qed

text \<open>
  Claim C8. Creating an account from a valid payload, one that satisfies the rules of
  the validator as the specification states them, and then reading the account at the
  id that the response to the creation carries gives a record whose \<open>name\<close>, \<open>email\<close>
  and \<open>address\<close> are those of the payload, as are \<open>phone_number\<close> and \<open>date_joined\<close> when
  the payload has them. This holds on every interpreter whose \<open>date.fromisoformat\<close>
  reads the \<open>YYYY-MM-DD\<close> forms.
\<close>

theorem create_then_read:
  assumes "content_type_header req = Some (py ''application/json'')"
    and "get_json req = Inr (JObj p)"
    and "spec_valid tbl p"
    and "reads_iso_dates fromiso"
  shows "\<exists>resp st' obj i obj'.
           create_accounts tbl fromiso today req st = (Inr resp, st') \<and>
           status_code resp = 201 \<and>
           body resp = Json (JObj obj) \<and>
           map_of obj (py ''id'') = Some (JInt i) \<and>
           get_accounts i st' = Inr \<lparr>body = Json (JObj obj'), status_code = 200, headers = []\<rparr> \<and>
           map_of obj' (py ''id'') = Some (JInt i) \<and>
           map_of obj' (py ''name'') = map_of p (py ''name'') \<and>
           map_of obj' (py ''email'') = map_of p (py ''email'') \<and>
           map_of obj' (py ''address'') = map_of p (py ''address'') \<and>
           (\<forall>v. map_of p (py ''phone_number'') = Some v \<longrightarrow>
              map_of obj' (py ''phone_number'') = Some v) \<and>
           (\<forall>v. map_of p (py ''date_joined'') = Some v \<longrightarrow>
              map_of obj' (py ''date_joined'') = Some v)"
proof -
  from assms(3,4) have v: "run_valid tbl fromiso p" by (rule spec_valid_run_valid [rotated])
  from assms(1) have c: "check_content_type req (py ''application/json'') = Inr ()"
    by (simp add: check_content_type_def py_def)
  let ?a = "overwritten fromiso today Account p"
  let ?a' = "?a\<lparr>acc_id := Some (next_id st)\<rparr>"
  let ?st' = "st\<lparr>rows := (rows st)(next_id st \<mapsto> ?a'), next_id := next_id st + 1\<rparr>"
  let ?obj = "[(py ''id'', JInt (next_id st)),
           (py ''name'', opt_json JStr (name ?a)),
           (py ''email'', opt_json JStr (email ?a)),
           (py ''address'', opt_json JStr (address ?a)),
           (py ''phone_number'', opt_json JStr (phone_number ?a)),
           (py ''date_joined'', opt_json (\<lambda>dt. JStr (isoformat dt)) (date_joined ?a))]"
  have ser: "serialize ?a' = JObj ?obj"
    by (simp add: serialize_def opt_json_def)
  have run: "create_accounts tbl fromiso today req st =
     (Inr \<lparr>body = Json (JObj ?obj), status_code = 201,
           headers = [(py ''Location'', py ''/'')]\<rparr>, ?st')"
    unfolding create_accounts_def ser [symmetric]
    by (simp add: c assms(2) deserialize_of_valid [OF v] create_def Let_def status_defs
        del: deserialize.simps)
  have read: "get_accounts (next_id st) ?st' =
      Inr \<lparr>body = Json (JObj ?obj), status_code = 200, headers = []\<rparr>"
    unfolding get_accounts_def ser [symmetric]
    by (simp add: find_def status_defs)
  note f = overwritten_fields [OF v, of today Account]
  have k: "map_of ?obj (py ''id'') = Some (JInt (next_id st))"
    "map_of ?obj (py ''name'') = Some (opt_json JStr (name ?a))"
    "map_of ?obj (py ''email'') = Some (opt_json JStr (email ?a))"
    "map_of ?obj (py ''address'') = Some (opt_json JStr (address ?a))"
    "map_of ?obj (py ''phone_number'') = Some (opt_json JStr (phone_number ?a))"
    "map_of ?obj (py ''date_joined'') = Some (opt_json (\<lambda>dt. JStr (isoformat dt)) (date_joined ?a))"
    by (simp_all add: py_def)
  have n: "map_of ?obj (py ''name'') = map_of p (py ''name'')"
    unfolding k using f(2) by (auto simp: opt_json_def)
  have e: "map_of ?obj (py ''email'') = map_of p (py ''email'')"
    unfolding k using f(3) by (auto simp: opt_json_def)
  have ad: "map_of ?obj (py ''address'') = map_of p (py ''address'')"
    unfolding k using f(4) by (auto simp: opt_json_def)
  have ph: "\<forall>v. map_of p (py ''phone_number'') = Some v \<longrightarrow>
              map_of ?obj (py ''phone_number'') = Some v"
    unfolding k using f(6) by (auto simp: opt_json_def)
  have dj: "\<forall>v. map_of p (py ''date_joined'') = Some v \<longrightarrow>
              map_of ?obj (py ''date_joined'') = Some v"
  proof (intro allI impI)
    fix w assume w: "map_of p (py ''date_joined'') = Some w"
    with assms(3) obtain s where s: "w = JStr s" "iso_date_string s"
      unfolding spec_valid_def by blast
    from overwritten_iso_date [OF v assms(4) w [unfolded s(1)] s(2), of today Account]
    obtain dt where "date_joined ?a = Some dt" "isoformat dt = s" by blast
    with s(1) show "map_of ?obj (py ''date_joined'') = Some w"
      unfolding k by (simp add: opt_json_def)
  qed
  have "create_accounts tbl fromiso today req st =
          (Inr \<lparr>body = Json (JObj ?obj), status_code = 201,
             headers = [(py ''Location'', py ''/'')]\<rparr>, ?st') \<and>
        status_code \<lparr>body = Json (JObj ?obj), status_code = 201,
             headers = [(py ''Location'', py ''/'')]\<rparr> = 201 \<and>
        body \<lparr>body = Json (JObj ?obj), status_code = 201,
             headers = [(py ''Location'', py ''/'')]\<rparr> = Json (JObj ?obj) \<and>
        map_of ?obj (py ''id'') = Some (JInt (next_id st)) \<and>
        get_accounts (next_id st) ?st' =
          Inr \<lparr>body = Json (JObj ?obj), status_code = 200, headers = []\<rparr> \<and>
        map_of ?obj (py ''id'') = Some (JInt (next_id st)) \<and>
        map_of ?obj (py ''name'') = map_of p (py ''name'') \<and>
        map_of ?obj (py ''email'') = map_of p (py ''email'') \<and>
        map_of ?obj (py ''address'') = map_of p (py ''address'') \<and>
        (\<forall>v. map_of p (py ''phone_number'') = Some v \<longrightarrow>
              map_of ?obj (py ''phone_number'') = Some v) \<and>
        (\<forall>v. map_of p (py ''date_joined'') = Some v \<longrightarrow>
              map_of ?obj (py ''date_joined'') = Some v)"
    using run read k(1) n e ad ph dj by simp
  then show ?thesis by blast
qed

theorem create_then_read_witness:
  "\<exists>resp st' obj i obj'.
     create_accounts (\<lambda>c. False) fromisoformat_py311 \<lparr>year = 2024, month = 1, day = 2\<rparr>
       \<lparr>content_type_header = Some (py ''application/json''),
        get_json = Inr (JObj [(py ''name'', JStr (py ''Ann'')),
          (py ''email'', JStr (py ''ann@example.com'')),
          (py ''address'', JStr (py ''1 Rd'')),
          (py ''date_joined'', JStr (py ''2022-12-31''))])\<rparr>
       \<lparr>rows = Map.empty, next_id = 1\<rparr> = (Inr resp, st') \<and>
     body resp = Json (JObj obj) \<and> map_of obj (py ''id'') = Some (JInt i) \<and>
     get_accounts i st' = Inr \<lparr>body = Json (JObj obj'), status_code = 200, headers = []\<rparr> \<and>
     map_of obj' (py ''name'') = Some (JStr (py ''Ann'')) \<and>
     map_of obj' (py ''email'') = Some (JStr (py ''ann@example.com'')) \<and>
     map_of obj' (py ''address'') = Some (JStr (py ''1 Rd'')) \<and>
     map_of obj' (py ''date_joined'') = Some (JStr (py ''2022-12-31''))"
proof -
  let ?p = "[(py ''name'', JStr (py ''Ann'')), (py ''email'', JStr (py ''ann@example.com'')),
             (py ''address'', JStr (py ''1 Rd'')), (py ''date_joined'', JStr (py ''2022-12-31''))]"
  let ?req = "\<lparr>content_type_header = Some (py ''application/json''), get_json = Inr (JObj ?p)\<rparr>"
  let ?st = "\<lparr>rows = Map.empty, next_id = 1\<rparr> :: store"
  have 1: "content_type_header ?req = Some (py ''application/json'')" by simp
  have 2: "get_json ?req = Inr (JObj ?p)" by simp
  have "validate_account_data (\<lambda>c. False) fromisoformat_py310 (JObj ?p) = Inr True"
    by (simp add: eval_defs)
  then have 3: "spec_valid (\<lambda>c. False) ?p"
    unfolding validate_account_data_eq
    using run_valid_spec_valid [OF py310_reads_only_iso_dates] by blast
  have 4: "map_of ?p (py ''name'') = Some (JStr (py ''Ann''))"
    "map_of ?p (py ''email'') = Some (JStr (py ''ann@example.com''))"
    "map_of ?p (py ''address'') = Some (JStr (py ''1 Rd''))"
    "map_of ?p (py ''date_joined'') = Some (JStr (py ''2022-12-31''))"
    by (simp_all add: py_def)
  from create_then_read [OF 1 2 3 py311_reads_iso_dates,
      of "\<lparr>year = 2024, month = 1, day = 2\<rparr>" ?st]
  obtain resp st' obj i obj' where r:
    "create_accounts (\<lambda>c. False) fromisoformat_py311 \<lparr>year = 2024, month = 1, day = 2\<rparr> ?req ?st = (Inr resp, st')"
    "body resp = Json (JObj obj)" "map_of obj (py ''id'') = Some (JInt i)"
    "get_accounts i st' = Inr \<lparr>body = Json (JObj obj'), status_code = 200, headers = []\<rparr>"
    "map_of obj' (py ''name'') = map_of ?p (py ''name'')"
    "map_of obj' (py ''email'') = map_of ?p (py ''email'')"
    "map_of obj' (py ''address'') = map_of ?p (py ''address'')"
    "\<forall>v. map_of ?p (py ''date_joined'') = Some v \<longrightarrow> map_of obj' (py ''date_joined'') = Some v"
    by blast
  from r(8) 4(4) have d: "map_of obj' (py ''date_joined'') = Some (JStr (py ''2022-12-31''))"
    by blast
  from r(1-4) r(5-7) [unfolded 4] d show ?thesis by blast
qed

text \<open>
  Claim C9. \<open>PUT /accounts/<id>\<close> looks the record up before it reads the body: for an
  id that is not in the store the answer is 404, whatever the body is and whether or
  not it would pass validation, and the store is left as it was.
\<close>

theorem update_account_unknown_id:
  assumes "rows st account_id = None"
  shows "http_status (fst (update_account tbl fromiso today account_id req st)) = 404 \<and>
         snd (update_account tbl fromiso today account_id req st) = st"
  using assms by (simp add: update_account_def query_get_def status_defs)

theorem update_account_unknown_id_witness:
  "http_status (fst (update_account (\<lambda>c. False) fromisoformat_py311 \<lparr>year = 2024, month = 1, day = 2\<rparr> 0
       \<lparr>content_type_header = Some (py ''application/json''),
        get_json = Inr (JObj [(py ''name'', JInt 1234), (py ''email'', JStr (py ''invalid''))])\<rparr>
       \<lparr>rows = Map.empty, next_id = 1\<rparr>)) = 404 \<and>
   http_status (fst (update_account (\<lambda>c. False) fromisoformat_py311 \<lparr>year = 2024, month = 1, day = 2\<rparr> 0
       \<lparr>content_type_header = Some (py ''application/json''),
        get_json = Inr (JObj [(py ''name'', JStr (py ''Fake Account'')),
          (py ''email'', JStr (py ''fake@example.com'')),
          (py ''address'', JStr (py ''123 Fake St''))])\<rparr>
       \<lparr>rows = Map.empty, next_id = 1\<rparr>)) = 404"
proof -
  have e: "rows \<lparr>rows = Map.empty, next_id = 1\<rparr> (0::int) = None" by simp
  from update_account_unknown_id [OF e] show ?thesis by blast
qed

end
